theory Spec2Isabelle
  imports Main "HOL-Library.Char_ord" "HOL-Library.List_Lexorder"
begin

section \<open>Python values, exceptions and the trace of collaborator calls\<close>

text \<open>
  The module \<^verbatim>\<open>ipaserver/install/dsinstance.py\<close> drives external collaborators (the
  process runner, the directory client, the service manager, the certificate database, the
  file system). Each call to a collaborator is recorded as an event of a trace, and what the
  collaborator answers (a value or a raised exception) is given by an oracle of the
  environment that may depend on everything that happened before.
\<close>

datatype pyval =
    PNone
  | PBool bool
  | PInt int
  | PStr string
  | PList "pyval list"
  | PDict "(string \<times> pyval) list"

text \<open>Python's truth value, as \<^verbatim>\<open>if x:\<close> and \<^verbatim>\<open>not x\<close> read it.\<close>

fun truthy :: "pyval \<Rightarrow> bool" where
  "truthy PNone = False"
| "truthy (PBool b) = b"
| "truthy (PInt n) = (n \<noteq> 0)"
| "truthy (PStr s) = (s \<noteq> [])"
| "truthy (PList xs) = (xs \<noteq> [])"
| "truthy (PDict kvs) = (kvs \<noteq> [])"

text \<open>
  The exception classes the module raises or names in a handler. Every other subclass of
  \<^verbatim>\<open>Exception\<close> is \<open>OtherException\<close>; \<open>SystemExit\<close> and \<open>KeyboardInterrupt\<close>
  derive from \<^verbatim>\<open>BaseException\<close> only.
\<close>

datatype exn =
    SystemExit
  | KeyboardInterrupt
  | ScriptError
  | CalledProcessError
  | NotFound
  | ValueError
  | OSError
  | TypeError
  | KeyError
  | OtherException string

text \<open>The collaborators' entry points that the modelled functions call.\<close>

datatype fn =
    ipautil_run
  | os_listdir
  | os_path_isdir
  | os_access
  | ldap2_connect
  | ldap2_disconnect
  | ldap2_isconnected
  | Service_start
  | Service_stop
  | Service_restart
  | Service_is_configured
  | Service_print_msg
  | Service_is_enabled
  | Service_enable
  | Service_disable
  | Service_backup_state
  | Service_restore_state
  | Service_get_state
  | Service_ldap_mod
  | dirsrv_is_running
  | dirsrv_restart
  | fstore_restore_file
  | CertDB_init
  | CertDB_set_cacert_name
  | CertDB_load_cacert
  | CertDB_untrack_server_cert
  | installutils_remove_keytab
  | installutils_remove_ccache
  | installutils_realm_to_serverid
  | ipautil_realm_to_suffix
  | ipautil_dir_exists
  | ipautil_ipa_generate_password
  | time_time
  | DN_str
  | ipaldap_get_ldap_uri
  | LDAPClient_init
  | LDAPClient_external_bind
  | LDAPClient_simple_bind
  | LDAPClient_gssapi_bind
  | LDAPClient_unbind
  | LDAPClient_get_entry
  | replication_enable_replication_version_checking
  | ReplicationManager_init
  | ReplicationManager_setup_promote_replication
  | ReplicationManager_needs_memberof_fixup
  | replication_wait_for_task

datatype level = DEBUG | ERROR | CRITICAL

datatype event =
    Call fn "pyval list"
  | Log level string

text \<open>
  An LDAP entry as its \<^verbatim>\<open>single_value\<close> view shows it: for an attribute name, the value,
  or the exception the view raises.
\<close>

type_synonym entry = "string \<Rightarrow> exn + pyval"

text \<open>
  The environment: the oracles that answer the collaborators' calls from the history, and
  the constants of \<^verbatim>\<open>ipaplatform.paths\<close>, \<^verbatim>\<open>ipaplatform.constants\<close>,
  \<^verbatim>\<open>ipalib.constants\<close> and \<^verbatim>\<open>ipaserver.install.replication\<close>, which are declared
  outside this module and are parameters here. \<open>ETC_DIRSRV_SLAPD_INSTANCE_TEMPLATE\<close> is the
  template already applied (with \<^verbatim>\<open>%\<close>) to its argument. \<open>ScriptError_is_SystemExit\<close> says
  whether \<^verbatim>\<open>ipapython.admintool.ScriptError\<close> derives from \<^verbatim>\<open>SystemExit\<close>; when it does
  not, it is an ordinary \<^verbatim>\<open>Exception\<close>.
\<close>

record env =
  respond :: "event list \<Rightarrow> fn \<Rightarrow> pyval list \<Rightarrow> exn + pyval"
  listdir :: "event list \<Rightarrow> string \<Rightarrow> exn + string list"
  get_entry :: "event list \<Rightarrow> pyval \<Rightarrow> string list \<Rightarrow> exn + entry"
  REMOVE_DS_PL :: string
  ETC_DIRSRV :: string
  ETC_DIRSRV_SLAPD_INSTANCE_TEMPLATE :: "pyval \<Rightarrow> string"
  USR_LIB_DIRSRV :: string
  USR_LIB_DIRSRV_64 :: string
  LIMITS_CONF :: string
  SYSCONFIG_DIRSRV :: string
  DS_KEYTAB :: string
  DS_USER :: string
  DS_GROUP :: string
  DOMAIN_LEVEL_0 :: int
  MIN_DOMAIN_LEVEL :: int
  MAX_DOMAIN_LEVEL :: int
  STRIP_ATTRS :: "string list"
  EXCLUDES :: "string list"
  TOTAL_EXCLUDES :: "string list"
  ScriptError_is_SystemExit :: bool

text \<open>Which handler catches which exception (\<^verbatim>\<open>except C\<close> is \<^verbatim>\<open>isinstance(e, C)\<close>).\<close>

definition is_CalledProcessError :: "exn \<Rightarrow> bool" where
  "is_CalledProcessError e = (e = CalledProcessError)"

definition is_NotFound :: "exn \<Rightarrow> bool" where
  "is_NotFound e = (e = NotFound)"

definition is_ValueError :: "exn \<Rightarrow> bool" where
  "is_ValueError e = (e = ValueError)"

definition is_OSError :: "exn \<Rightarrow> bool" where
  "is_OSError e = (e = OSError)"

definition is_TypeError :: "exn \<Rightarrow> bool" where
  "is_TypeError e = (e = TypeError)"

definition is_SystemExit :: "env \<Rightarrow> exn \<Rightarrow> bool" where
  "is_SystemExit E e = (e = SystemExit \<or> (e = ScriptError \<and> ScriptError_is_SystemExit E))"

definition is_Exception :: "env \<Rightarrow> exn \<Rightarrow> bool" where
  "is_Exception E e =
     (e \<noteq> SystemExit \<and> e \<noteq> KeyboardInterrupt \<and> \<not> (e = ScriptError \<and> ScriptError_is_SystemExit E))"

subsection \<open>The instance and the world\<close>

text \<open>
  The attributes of a \<^verbatim>\<open>DsInstance\<close> that the modelled methods read or write. Python
  attributes hold any value, so each is a \<open>pyval\<close>.
\<close>

record ds =
  realm :: pyval
  fqdn :: pyval
  domain :: pyval
  serverid :: pyval
  suffix :: pyval
  dm_password :: pyval
  master_fqdn :: pyval
  nickname :: pyval
  subject_base :: pyval
  ca_subject :: pyval
  pkcs12_info :: pyval
  ca_is_configured :: pyval
  ca_file :: pyval
  idstart :: pyval
  idmax :: pyval
  sub_dict :: pyval
  run_init_memberof :: pyval
  domainlevel :: pyval
  promote :: pyval

text \<open>
  The world a call runs in: the trace so far (oldest event first), the Persistent State
  Store, and the instance.
\<close>

record world =
  trace :: "event list"
  statestore :: "string \<rightharpoonup> pyval"
  self :: ds

text \<open>
  A computation takes the world and returns either the raised exception or the value,
  together with the world it leaves: what was done before a raise stays done.
\<close>

type_synonym 'a run = "world \<Rightarrow> (exn + 'a) \<times> world"

definition ret :: "'a \<Rightarrow> 'a run" where
  "ret a w = (Inr a, w)"

definition raise :: "exn \<Rightarrow> 'a run" where
  "raise e w = (Inl e, w)"

definition bindE :: "'a run \<Rightarrow> ('a \<Rightarrow> 'b run) \<Rightarrow> 'b run" where
  "bindE m f w = (case m w of (Inl e, w') \<Rightarrow> (Inl e, w') | (Inr a, w') \<Rightarrow> f a w')"

definition thenE :: "'a run \<Rightarrow> 'b run \<Rightarrow> 'b run" where
  "thenE m n = bindE m (\<lambda>_. n)"

text \<open>\<^verbatim>\<open>try: m  except ...: h e\<close>; a handler that does not match re-raises.\<close>

definition catchE :: "'a run \<Rightarrow> (exn \<Rightarrow> 'a run) \<Rightarrow> 'a run" where
  "catchE m h w = (case m w of (Inl e, w') \<Rightarrow> h e w' | (Inr a, w') \<Rightarrow> (Inr a, w'))"

definition liftE :: "exn + 'a \<Rightarrow> 'a run" where
  "liftE r w = (r, w)"

definition emit :: "event \<Rightarrow> unit run" where
  "emit ev w = (Inr (), w\<lparr>trace := trace w @ [ev]\<rparr>)"

text \<open>
  A line of \<^verbatim>\<open>root_logger\<close>: its level and its format string (the arguments formatted into
  it are left out). Logging raises nothing.
\<close>

definition log :: "level \<Rightarrow> string \<Rightarrow> unit run" where
  "log lvl msg = emit (Log lvl msg)"

text \<open>A collaborator call: the oracle answers from the history, and the call is recorded.\<close>

definition call :: "env \<Rightarrow> fn \<Rightarrow> pyval list \<Rightarrow> pyval run" where
  "call E f args w = (respond E (trace w) f args, w\<lparr>trace := trace w @ [Call f args]\<rparr>)"

definition call0 :: "env \<Rightarrow> fn \<Rightarrow> pyval list \<Rightarrow> unit run" where
  "call0 E f args = bindE (call E f args) (\<lambda>_. ret ())"

definition get_self :: "ds run" where
  "get_self w = (Inr (self w), w)"

definition modify_self :: "(ds \<Rightarrow> ds) \<Rightarrow> unit run" where
  "modify_self f w = (Inr (), w\<lparr>self := f (self w)\<rparr>)"

text \<open>\<^verbatim>\<open>for x in xs: body(x)\<close>; the first raise leaves the loop.\<close>

fun forE :: "'a list \<Rightarrow> ('a \<Rightarrow> unit run) \<Rightarrow> unit run" where
  "forE [] body = ret ()"
| "forE (x # xs) body = thenE (body x) (forE xs body)"

text \<open>The function names of the calls of a trace, in order (log lines left out).\<close>

fun calls_of :: "event list \<Rightarrow> fn list" where
  "calls_of [] = []"
| "calls_of (Call f args # es) = f # calls_of es"
| "calls_of (Log lvl msg # es) = calls_of es"

section \<open>Module-level functions\<close>

definition DS_INSTANCE_PREFIX :: string where
  "DS_INSTANCE_PREFIX = ''slapd-''"

text \<open>\<^verbatim>\<open>config_dirname(serverid)\<close>.\<close>

definition config_dirname :: "env \<Rightarrow> pyval \<Rightarrow> string" where
  "config_dirname E serverid' = ETC_DIRSRV_SLAPD_INSTANCE_TEMPLATE E serverid' @ ''/''"

text \<open>
  \<^verbatim>\<open>remove_ds_instance(serverid, force=False)\<close>. \<^verbatim>\<open>''.join([DS_INSTANCE_PREFIX, serverid])\<close>
  raises \<^verbatim>\<open>TypeError\<close> unless \<open>serverid\<close> is a string. The argument list gets \<^verbatim>\<open>-f\<close> when
  \<open>force\<close> is set. A \<^verbatim>\<open>CalledProcessError\<close> of the run is logged and re-raised when forced,
  and otherwise answered by calling the function again with \<open>force = True\<close>; any other
  exception passes the handler.
\<close>

definition remove_ds_args :: "env \<Rightarrow> string \<Rightarrow> bool \<Rightarrow> pyval list" where
  "remove_ds_args E sid force =
     [PList (map PStr ([REMOVE_DS_PL E, ''-i'', DS_INSTANCE_PREFIX @ sid] @
        (if force then [''-f''] else [])))]"

function remove_ds_instance :: "env \<Rightarrow> pyval \<Rightarrow> bool \<Rightarrow> unit run" where
  "remove_ds_instance E serverid' True =
     (case serverid' of
        PStr sid \<Rightarrow>
          thenE (log DEBUG ''Forcing instance removal'')
            (catchE (call0 E ipautil_run (remove_ds_args E sid True))
               (\<lambda>e. if is_CalledProcessError e
                     then thenE (log ERROR ''Instance removal failed.'') (raise e)
                     else raise e))
      | _ \<Rightarrow> raise TypeError)"
| "remove_ds_instance E serverid' False =
     (case serverid' of
        PStr sid \<Rightarrow>
          catchE (call0 E ipautil_run (remove_ds_args E sid False))
            (\<lambda>e. if is_CalledProcessError e
                  then thenE (log DEBUG '''%s' failed. Attempting to force removal'')
                         (remove_ds_instance E serverid' True)
                  else raise e)
      | _ \<Rightarrow> raise TypeError)"
  by pat_completeness auto
termination
  by (relation "measure (\<lambda>(E, serverid', force). if force then 0 else 1)") auto

text \<open>\<^verbatim>\<open>os.path.join(a, b)\<close> of \<^verbatim>\<open>posixpath\<close>, for two components.\<close>

definition os_path_join :: "string \<Rightarrow> string \<Rightarrow> string" where
  "os_path_join a b =
     (if take 1 b = ''/'' then b
      else if a = [] \<or> (a \<noteq> [] \<and> last a = CHR ''/'') then a @ b
      else a @ ''/'' @ b)"

definition startswith :: "string \<Rightarrow> string \<Rightarrow> bool" where
  "startswith s p = (take (length p) s = p)"

definition endswith :: "string \<Rightarrow> string \<Rightarrow> bool" where
  "endswith s x = (length x \<le> length s \<and> drop (length s - length x) s = x)"

text \<open>
  \<^verbatim>\<open>get_ds_instances()\<close>: the loop over \<^verbatim>\<open>os.listdir(paths.ETC_DIRSRV)\<close> with the list
  \<open>instances\<close> it appends to, then \<^verbatim>\<open>instances.sort()\<close>.
\<close>

fun ds_instances_loop :: "env \<Rightarrow> string \<Rightarrow> string list \<Rightarrow> string list \<Rightarrow> string list run" where
  "ds_instances_loop E dirsrv_instance_dir [] instances = ret instances"
| "ds_instances_loop E dirsrv_instance_dir (basename # rest) instances =
     bindE (call E os_path_isdir [PStr (os_path_join dirsrv_instance_dir basename)])
       (\<lambda>isdir.
          if truthy isdir then
            if startswith basename DS_INSTANCE_PREFIX \<and> \<not> endswith basename ''.removed'' then
              (let instance = drop (length DS_INSTANCE_PREFIX) basename in
               if instance \<noteq> [] then ds_instances_loop E dirsrv_instance_dir rest (instances @ [instance])
               else ds_instances_loop E dirsrv_instance_dir rest instances)
            else ds_instances_loop E dirsrv_instance_dir rest instances
          else ds_instances_loop E dirsrv_instance_dir rest instances)"

definition os_listdir_call :: "env \<Rightarrow> string \<Rightarrow> string list run" where
  "os_listdir_call E path w =
     (listdir E (trace w) path, w\<lparr>trace := trace w @ [Call os_listdir [PStr path]]\<rparr>)"

definition get_ds_instances :: "env \<Rightarrow> string list run" where
  "get_ds_instances E =
     (let dirsrv_instance_dir = ETC_DIRSRV E in
      bindE (os_listdir_call E dirsrv_instance_dir)
        (\<lambda>names. bindE (ds_instances_loop E dirsrv_instance_dir names [])
           (\<lambda>instances. ret (sort instances))))"

text \<open>\<^verbatim>\<open>find_server_root()\<close>.\<close>

definition find_server_root :: "env \<Rightarrow> pyval run" where
  "find_server_root E =
     bindE (call E ipautil_dir_exists [PStr (USR_LIB_DIRSRV_64 E)])
       (\<lambda>exists. if truthy exists then ret (PStr (USR_LIB_DIRSRV_64 E))
                  else ret (PStr (USR_LIB_DIRSRV E)))"

text \<open>\<^verbatim>\<open>is_ds_running(server_id='')\<close>.\<close>

definition is_ds_running :: "env \<Rightarrow> pyval \<Rightarrow> pyval run" where
  "is_ds_running E server_id = call E dirsrv_is_running [server_id]"

subsection \<open>Python built-ins used by the module\<close>

text \<open>
  \<^verbatim>\<open>int(x)\<close>: an integer or a boolean is its own value; a string is read as an optional sign
  and decimal digits between optional white space (the Python 2 grammar; anything else is a
  \<^verbatim>\<open>ValueError\<close>); \<^verbatim>\<open>None\<close>, a list and a dict raise \<^verbatim>\<open>TypeError\<close>.
\<close>

definition is_space :: "char \<Rightarrow> bool" where
  "is_space c = (c \<in> set [CHR '' '', CHR 0x09, CHR 0x0A, CHR 0x0B, CHR 0x0C, CHR 0x0D])"

definition is_digit :: "char \<Rightarrow> bool" where
  "is_digit c = (CHR ''0'' \<le> c \<and> c \<le> CHR ''9'')"

definition strip :: "string \<Rightarrow> string" where
  "strip s = rev (dropWhile is_space (rev (dropWhile is_space s)))"

definition digits_val :: "string \<Rightarrow> nat" where
  "digits_val cs = foldl (\<lambda>a c. 10 * a + (of_char c - 48)) 0 cs"

definition parse_int :: "string \<Rightarrow> int option" where
  "parse_int s =
     (let t = strip s;
          neg = (take 1 t = ''-'');
          body = (if take 1 t = ''-'' \<or> take 1 t = ''+'' then drop 1 t else t)
      in if body \<noteq> [] \<and> list_all is_digit body
         then Some (if neg then - int (digits_val body) else int (digits_val body))
         else None)"

fun py_int :: "pyval \<Rightarrow> exn + int" where
  "py_int (PInt n) = Inr n"
| "py_int (PBool b) = Inr (if b then 1 else 0)"
| "py_int (PStr s) = (case parse_int s of Some n \<Rightarrow> Inr n | None \<Rightarrow> Inl ValueError)"
| "py_int PNone = Inl TypeError"
| "py_int (PList xs) = Inl TypeError"
| "py_int (PDict kvs) = Inl TypeError"

text \<open>The number a value counts as in arithmetic: an integer, or a boolean (0 or 1).\<close>

fun as_number :: "pyval \<Rightarrow> int option" where
  "as_number (PInt n) = Some n"
| "as_number (PBool b) = Some (if b then 1 else 0)"
| "as_number v = None"

text \<open>\<^verbatim>\<open>a - b\<close>: defined on numbers; every other pair of these values raises \<^verbatim>\<open>TypeError\<close>.\<close>

definition py_sub :: "pyval \<Rightarrow> pyval \<Rightarrow> exn + pyval" where
  "py_sub a b =
     (case (as_number a, as_number b) of
        (Some x, Some y) \<Rightarrow> Inr (PInt (x - y))
      | _ \<Rightarrow> Inl TypeError)"

text \<open>\<^verbatim>\<open>a + b\<close>: numbers add, two strings and two lists concatenate, the rest is a \<^verbatim>\<open>TypeError\<close>.\<close>

fun py_add :: "pyval \<Rightarrow> pyval \<Rightarrow> exn + pyval" where
  "py_add (PStr x) (PStr y) = Inr (PStr (x @ y))"
| "py_add (PList x) (PList y) = Inr (PList (x @ y))"
| "py_add a b =
     (case (as_number a, as_number b) of
        (Some x, Some y) \<Rightarrow> Inr (PInt (x + y))
      | _ \<Rightarrow> Inl TypeError)"

text \<open>\<^verbatim>\<open>d[key]\<close> for a string key.\<close>

fun py_getitem :: "pyval \<Rightarrow> string \<Rightarrow> exn + pyval" where
  "py_getitem (PDict kvs) key = (case map_of kvs key of Some v \<Rightarrow> Inr v | None \<Rightarrow> Inl KeyError)"
| "py_getitem v key = Inl TypeError"

text \<open>\<^verbatim>\<open>sep.join(xs)\<close>.\<close>

fun py_join :: "string \<Rightarrow> string list \<Rightarrow> string" where
  "py_join sep [] = []"
| "py_join sep [x] = x"
| "py_join sep (x # y # ys) = x @ sep @ py_join sep (y # ys)"

text \<open>\<^verbatim>\<open>s.upper()\<close> on ASCII letters.\<close>

definition py_upper :: "string \<Rightarrow> string" where
  "py_upper s = map (\<lambda>c. if CHR ''a'' \<le> c \<and> c \<le> CHR ''z'' then char_of (of_char c - 32 :: nat) else c) s"

text \<open>A \<^verbatim>\<open>DN(...)\<close> is kept as the list of the components it was built from.\<close>

definition DN :: "pyval list \<Rightarrow> pyval" where
  "DN components = PList components"

subsection \<open>\<^verbatim>\<open>get_domain_level(api=api)\<close>\<close>

definition get_entry_call :: "env \<Rightarrow> pyval \<Rightarrow> string list \<Rightarrow> entry run" where
  "get_entry_call E dn attrs w =
     (get_entry E (trace w) dn attrs,
      w\<lparr>trace := trace w @ [Call LDAPClient_get_entry [dn, PList (map PStr attrs)]]\<rparr>)"

text \<open>
  \<open>api_env_realm\<close> and \<open>api_env_basedn\<close> are \<^verbatim>\<open>api.env.realm\<close> and \<^verbatim>\<open>api.env.basedn\<close>. The
  \<^verbatim>\<open>return\<close> inside the handler of \<^verbatim>\<open>errors.NotFound\<close> is the \<open>None\<close> branch.
\<close>

definition get_domain_level :: "env \<Rightarrow> pyval \<Rightarrow> pyval \<Rightarrow> int run" where
  "get_domain_level E api_env_realm api_env_basedn =
     bindE (call E ipaldap_get_ldap_uri [PStr ''ldapi'', api_env_realm])
       (\<lambda>ldap_uri.
     thenE (call0 E LDAPClient_init [ldap_uri])
    (thenE (call0 E LDAPClient_external_bind [])
       (let dn = DN [PStr ''cn=Domain Level'', PStr ''cn=ipa'', PStr ''cn=etc'', api_env_basedn] in
        bindE (catchE (bindE (get_entry_call E dn [''ipaDomainLevel'']) (\<lambda>entry. ret (Some entry)))
                 (\<lambda>e. if is_NotFound e then ret None else raise e))
          (\<lambda>found. case found of
               None \<Rightarrow> ret (DOMAIN_LEVEL_0 E)
             | Some entry \<Rightarrow>
                 bindE (liftE (entry ''ipaDomainLevel'')) (\<lambda>v. liftE (py_int v))))))"

section \<open>The Persistent State Store\<close>

text \<open>
  Modelled from the spec: \<^verbatim>\<open>Service.backup_state\<close>, \<^verbatim>\<open>Service.restore_state\<close> and
  \<^verbatim>\<open>Service.get_state\<close> are defined in \<^verbatim>\<open>ipaserver/install/service.py\<close>, which is not among the
  sources. Section 4.1 of the specification: \<^emph>\<open>backup(key, currentValue)\<close> records the value;
  backing up the same key twice is a no-op on the second call (first write wins);
  \<^emph>\<open>restore(key)\<close> removes and returns the recorded value, and restoring a key that was never
  backed up is not an error (the callers in this module read \<^verbatim>\<open>None\<close> then); \<^emph>\<open>get(key)\<close>
  reads without removing. Each operation is also recorded in the trace.
\<close>

definition backup_state :: "string \<Rightarrow> pyval \<Rightarrow> unit run" where
  "backup_state key v w =
     (Inr (),
      w\<lparr>trace := trace w @ [Call Service_backup_state [PStr key, v]],
        statestore := (case statestore w key of
                         None \<Rightarrow> (statestore w)(key \<mapsto> v)
                       | Some old \<Rightarrow> statestore w)\<rparr>)"

definition restore_state :: "string \<Rightarrow> pyval run" where
  "restore_state key w =
     (Inr (case statestore w key of None \<Rightarrow> PNone | Some v \<Rightarrow> v),
      w\<lparr>trace := trace w @ [Call Service_restore_state [PStr key]],
        statestore := (statestore w)(key := None)\<rparr>)"

definition get_state :: "string \<Rightarrow> pyval run" where
  "get_state key w =
     (Inr (case statestore w key of None \<Rightarrow> PNone | Some v \<Rightarrow> v),
      w\<lparr>trace := trace w @ [Call Service_get_state [PStr key]]\<rparr>)"

section \<open>The class \<^verbatim>\<open>DsInstance\<close>\<close>

text \<open>
  A parameter of a method that has the name of an attribute carries a prime. The private
  methods \<^verbatim>\<open>__setup_sub_dict\<close>, \<^verbatim>\<open>__setup_replica\<close> and \<^verbatim>\<open>__enable\<close> carry the class
  name in front, as Python's name mangling writes them.
\<close>

subsection \<open>\<^verbatim>\<open>__setup_sub_dict\<close>, \<^verbatim>\<open>init_info\<close> and \<^verbatim>\<open>create_replica\<close>\<close>

text \<open>
  \<^verbatim>\<open>idrange_size = self.idmax - self.idstart + 1\<close> under \<^verbatim>\<open>except TypeError\<close>, then the
  dictionary, its keyword arguments evaluated in order. \<^verbatim>\<open>time.time()\<close> answers a float; the
  oracle answers its value as the \<open>pyval\<close> that \<^verbatim>\<open>int\<close> then converts. \<^verbatim>\<open>str(self.suffix)\<close>
  is the call \<open>DN_str\<close>.
\<close>

definition DsInstance__setup_sub_dict :: "env \<Rightarrow> unit run" where
  "DsInstance__setup_sub_dict E =
     bindE (find_server_root E) (\<lambda>server_root.
     bindE get_self (\<lambda>s.
     bindE (catchE (bindE (liftE (py_sub (idmax s) (idstart s))) (\<lambda>d. liftE (py_add d (PInt 1))))
              (\<lambda>e. if is_TypeError e then ret PNone else raise e)) (\<lambda>idrange_size.
     bindE (call E ipautil_ipa_generate_password []) (\<lambda>random_password.
     bindE (call E time_time []) (\<lambda>now.
     bindE (liftE (py_int now)) (\<lambda>time.
     bindE (call E DN_str [suffix s]) (\<lambda>escaped_suffix.
     modify_self (\<lambda>s. s\<lparr>sub_dict := PDict
       [(''FQDN'', fqdn s), (''SERVERID'', serverid s),
        (''PASSWORD'', dm_password s),
        (''RANDOM_PASSWORD'', random_password),
        (''SUFFIX'', suffix s),
        (''REALM'', realm s), (''USER'', PStr (DS_USER E)),
        (''SERVER_ROOT'', server_root), (''DOMAIN'', domain s),
        (''TIME'', PInt time), (''IDSTART'', idstart s),
        (''IDMAX'', idmax s), (''HOST'', fqdn s),
        (''ESCAPED_SUFFIX'', escaped_suffix),
        (''GROUP'', PStr (DS_GROUP E)),
        (''IDRANGE_SIZE'', idrange_size),
        (''DOMAIN_LEVEL'', domainlevel s),
        (''MAX_DOMAIN_LEVEL'', PInt (MAX_DOMAIN_LEVEL E)),
        (''MIN_DOMAIN_LEVEL'', PInt (MIN_DOMAIN_LEVEL E)),
        (''STRIP_ATTRS'', PStr (py_join '' '' (STRIP_ATTRS E))),
        (''EXCLUDES'', PStr (''(objectclass=*) $ EXCLUDE '' @ py_join '' '' (EXCLUDES E))),
        (''TOTAL_EXCLUDES'',
           PStr (''(objectclass=*) $ EXCLUDE '' @ py_join '' '' (TOTAL_EXCLUDES E)))]\<rparr>))))))))"

text \<open>
  \<^verbatim>\<open>init_info\<close>; \<open>realm_name\<close> is a string (\<^verbatim>\<open>realm_name.upper()\<close>). \<^verbatim>\<open>subject_base\<close> is a
  property of the class (\<^verbatim>\<open>ipautil.dn_attribute_property\<close>, declared outside this module)
  whose setter converts the value assigned; the conversion is not part of this definition,
  and the field holds the value as assigned.
\<close>

definition init_info ::
  "env \<Rightarrow> string \<Rightarrow> pyval \<Rightarrow> pyval \<Rightarrow> pyval \<Rightarrow> pyval \<Rightarrow> pyval \<Rightarrow> pyval \<Rightarrow> pyval \<Rightarrow> pyval \<Rightarrow> pyval
     \<Rightarrow> unit run" where
  "init_info E realm_name fqdn' domain_name dm_password' subject_base' ca_subject'
       idstart' idmax' pkcs12_info' ca_file' =
     thenE (modify_self (\<lambda>s. s\<lparr>realm := PStr (py_upper realm_name)\<rparr>))
    (bindE (call E installutils_realm_to_serverid [PStr (py_upper realm_name)]) (\<lambda>sid.
     thenE (modify_self (\<lambda>s. s\<lparr>serverid := sid\<rparr>))
    (bindE (call E ipautil_realm_to_suffix [PStr (py_upper realm_name)]) (\<lambda>suf.
     thenE (modify_self (\<lambda>s. s\<lparr>suffix := suf, fqdn := fqdn', dm_password := dm_password',
              domain := domain_name, subject_base := subject_base', ca_subject := ca_subject',
              idstart := idstart', idmax := idmax', pkcs12_info := pkcs12_info'\<rparr>))
    (thenE (if truthy pkcs12_info' then modify_self (\<lambda>s. s\<lparr>ca_is_configured := PBool False\<rparr>)
            else ret ())
    (thenE (modify_self (\<lambda>s. s\<lparr>ca_file := ca_file'\<rparr>))
           (DsInstance__setup_sub_dict E)))))))"

text \<open>
  \<^verbatim>\<open>create_replica\<close>, lines 363 to 391: the fixed id range, \<^verbatim>\<open>init_info\<close> and the attributes
  set before the installation steps are registered. The steps themselves are registered with
  and run by \<^verbatim>\<open>Service.step\<close> and \<^verbatim>\<open>Service.start_creation\<close>, outside this module, and are
  not part of this definition; \<^verbatim>\<open>self.api\<close> is not among the modelled attributes.
\<close>

definition create_replica ::
  "env \<Rightarrow> string \<Rightarrow> pyval \<Rightarrow> pyval \<Rightarrow> pyval \<Rightarrow> pyval \<Rightarrow> pyval \<Rightarrow> pyval \<Rightarrow> pyval \<Rightarrow> pyval \<Rightarrow> pyval
     \<Rightarrow> pyval \<Rightarrow> unit run" where
  "create_replica E realm_name master_fqdn' fqdn' domain_name dm_password' subject_base'
       ca_subject' pkcs12_info' ca_file' ca_is_configured' promote' =
     (let idstart' = PInt 1101; idmax' = PInt 1100 in
      thenE (init_info E realm_name fqdn' domain_name dm_password' subject_base' ca_subject'
               idstart' idmax' pkcs12_info' ca_file')
     (thenE (modify_self (\<lambda>s. s\<lparr>master_fqdn := master_fqdn'\<rparr>))
     (thenE (if ca_is_configured' \<noteq> PNone
             then modify_self (\<lambda>s. s\<lparr>ca_is_configured := ca_is_configured'\<rparr>) else ret ())
            (modify_self (\<lambda>s. s\<lparr>promote := promote'\<rparr>)))))"

subsection \<open>\<^verbatim>\<open>__setup_replica\<close> and \<^verbatim>\<open>init_memberof\<close>\<close>




subsection \<open>\<^verbatim>\<open>start\<close>, \<^verbatim>\<open>stop\<close>, \<^verbatim>\<open>restart\<close> and \<^verbatim>\<open>__enable\<close>\<close>

text \<open>\<open>Service_start\<close>, \<open>Service_stop\<close> and \<open>Service_restart\<close> are the calls through \<^verbatim>\<open>super\<close>.\<close>

definition start :: "env \<Rightarrow> pyval list \<Rightarrow> unit run" where
  "start E args = thenE (call0 E Service_start args) (call0 E ldap2_connect [])"

definition stop :: "env \<Rightarrow> pyval list \<Rightarrow> unit run" where
  "stop E args =
     thenE (bindE (call E ldap2_isconnected [])
              (\<lambda>connected. if truthy connected then call0 E ldap2_disconnect [] else ret ()))
           (call0 E Service_stop args)"

definition restart :: "env \<Rightarrow> pyval \<Rightarrow> unit run" where
  "restart E instance =
     thenE (call0 E ldap2_disconnect [])
    (thenE (catchE
              (thenE (call0 E Service_restart [instance])
                 (bindE (is_ds_running E instance) (\<lambda>running.
                    if \<not> truthy running then
                      thenE (log CRITICAL
                        ''Failed to restart the directory server. See the installation log for details.'')
                        (raise ScriptError)
                    else ret ())))
              (\<lambda>e. if is_SystemExit E e then raise e
                    else if is_Exception E e then
                      log CRITICAL
                        ''Failed to restart the directory server (%s). See the installation log for details.''
                    else raise e))
           (call0 E ldap2_connect []))"

definition DsInstance__enable :: "env \<Rightarrow> unit run" where
  "DsInstance__enable E =
     bindE (call E Service_is_enabled []) (\<lambda>enabled.
     thenE (backup_state ''enabled'' enabled)
           (call0 E Service_disable []))"

subsection \<open>\<^verbatim>\<open>stop_tracking_certificates\<close> and \<^verbatim>\<open>uninstall\<close>\<close>

text \<open>\<^verbatim>\<open>config_dirname(serverid)[:-1]\<close> drops the trailing slash.\<close>

definition stop_tracking_certificates :: "env \<Rightarrow> pyval \<Rightarrow> unit run" where
  "stop_tracking_certificates E serverid' =
     bindE (if serverid' = PNone then get_state ''serverid'' else ret serverid') (\<lambda>sid.
       if sid \<noteq> PNone then
         bindE get_self (\<lambda>s.
           let dirname = butlast (config_dirname E sid) in
           thenE (call0 E CertDB_init [realm s, PStr dirname])
                 (call0 E CertDB_untrack_server_cert [nickname s]))
       else ret ())"

text \<open>
  \<^verbatim>\<open>uninstall\<close> is written as its consecutive parts. Lines 985 to 1001: the message,
  the restored \<^verbatim>\<open>enabled\<close> and \<^verbatim>\<open>running\<close> keys, the two restored files under
  \<^verbatim>\<open>except ValueError\<close>, and \<^verbatim>\<open>self.enable()\<close> when the restored value is true.
\<close>

definition uninstall_restore_service :: "env \<Rightarrow> unit run" where
  "uninstall_restore_service E =
     thenE (bindE (call E Service_is_configured []) (\<lambda>configured.
              if truthy configured
              then call0 E Service_print_msg [PStr ''Unconfiguring directory server'']
              else ret ()))
    (bindE (restore_state ''enabled'') (\<lambda>enabled.
     thenE (restore_state ''running'')
    (thenE (catchE
              (thenE (call0 E fstore_restore_file [PStr (LIMITS_CONF E)])
                     (call0 E fstore_restore_file [PStr (SYSCONFIG_DIRSRV E)]))
              (\<lambda>e. if is_ValueError e then log DEBUG ''%s'' else raise e))
           (if truthy enabled then call0 E Service_enable [] else ret ()))))"

text \<open>
  Lines 1007 to 1013: the \<^verbatim>\<open>try\<close> statement that removes the instance, the keytab and the
  credential cache under one \<^verbatim>\<open>except ipautil.CalledProcessError\<close>.
\<close>

definition uninstall_try_remove :: "env \<Rightarrow> pyval \<Rightarrow> unit run" where
  "uninstall_try_remove E serverid' =
     catchE
       (thenE (remove_ds_instance E serverid' False)
       (thenE (call0 E installutils_remove_keytab [PStr (DS_KEYTAB E)])
              (call0 E installutils_remove_ccache [PStr (DS_USER E)])))
       (\<lambda>e. if is_CalledProcessError e then
               log ERROR
                 ''Failed to remove DS instance. You may need to remove instance data manually''
             else raise e)"

text \<open>
  Lines 1003 to 1013: the restored \<^verbatim>\<open>serverid\<close>, and when it is not \<^verbatim>\<open>None\<close> the
  certificates untracked, a log line and the \<^verbatim>\<open>try\<close> statement above.
\<close>

definition uninstall_remove_instance :: "env \<Rightarrow> unit run" where
  "uninstall_remove_instance E =
     bindE (restore_state ''serverid'') (\<lambda>serverid'.
       if serverid' \<noteq> PNone then
         thenE (stop_tracking_certificates E serverid')
        (thenE (log DEBUG ''Removing DS instance %s'')
               (uninstall_try_remove E serverid'))
       else ret ())"

text \<open>Lines 1015 to 1022: the four keys that are restored only to be dropped.\<close>

definition uninstall_drop_state :: "unit run" where
  "uninstall_drop_state =
     thenE (restore_state ''user_exists'')
    (thenE (restore_state ''nsslapd-port'')
    (thenE (restore_state ''nsslapd-security'')
           (bindE (restore_state ''nsslapd-ldapiautobind'') (\<lambda>_. ret ()))))"

text \<open>
  Lines 1024 to 1031: the loop over \<^verbatim>\<open>get_ds_instances()\<close> that restarts each remaining
  instance (\<^verbatim>\<open>wait=False\<close>) under \<^verbatim>\<open>except Exception\<close>.
\<close>

definition restart_remaining_instance :: "env \<Rightarrow> string \<Rightarrow> unit run" where
  "restart_remaining_instance E ds_instance =
     catchE (call0 E dirsrv_restart [PStr ds_instance, PBool False])
       (\<lambda>e. if is_Exception E e then log ERROR ''Unable to restart DS instance %s: %s''
             else raise e)"

definition uninstall_restart_remaining :: "env \<Rightarrow> unit run" where
  "uninstall_restart_remaining E =
     bindE (get_ds_instances E) (\<lambda>instances. forE instances (restart_remaining_instance E))"

definition uninstall :: "env \<Rightarrow> unit run" where
  "uninstall E =
     thenE (uninstall_restore_service E)
    (thenE (uninstall_remove_instance E)
    (thenE uninstall_drop_state
           (uninstall_restart_remaining E)))"

subsection \<open>\<^verbatim>\<open>add_ca_cert\<close>\<close>

text \<open>
  The two \<^verbatim>\<open>return False\<close> of the readability check are the value \<open>Some False\<close> of the first
  part; \<open>None\<close> goes on. \<open>cacert_fname\<close> and \<open>cacert_name\<close> are strings. The assignment
  \<^verbatim>\<open>certdb.cacert_name = cacert_name\<close> is recorded as an event.
\<close>

definition add_ca_cert :: "env \<Rightarrow> string \<Rightarrow> string \<Rightarrow> bool run" where
  "add_ca_cert E cacert_fname cacert_name =
     bindE (catchE
              (bindE (call E os_access [PStr cacert_fname, PStr ''R_OK'']) (\<lambda>readable.
                 if \<not> truthy readable then
                   thenE (log CRITICAL ''The given CA cert file named [%s] could not be read'')
                         (ret (Some False))
                 else ret None))
              (\<lambda>e. if is_OSError e then
                      thenE (log CRITICAL ''The given CA cert file named [%s] could not be read: %s'')
                            (ret (Some False))
                    else raise e))
       (\<lambda>returned. case returned of
            Some status \<Rightarrow> ret status
          | None \<Rightarrow>
              thenE (stop E [])
             (bindE get_self (\<lambda>s.
              bindE (call E installutils_realm_to_serverid [realm s]) (\<lambda>sid.
              let dirname = config_dirname E sid in
              thenE (call0 E CertDB_init [realm s, PStr dirname, subject_base s, ca_subject s])
             (let cacert_name2 = (if cacert_name = [] \<or> length cacert_name = 0
                                  then ''Imported CA'' else cacert_name) in
              thenE (emit (Call CertDB_set_cacert_name [PStr cacert_name2]))
             (bindE (catchE
                       (thenE (call0 E CertDB_load_cacert [PStr cacert_fname, PStr ''C,,''])
                              (ret True))
                       (\<lambda>e. if is_CalledProcessError e then
                               thenE (log CRITICAL ''Error importing CA cert file named [%s]: %s'')
                                     (ret False)
                             else raise e)) (\<lambda>status.
              thenE (start E [])
                    (ret status))))))))"

section \<open>Notions used in the statements\<close>

text \<open>The argument lists of the calls to one entry point in a trace, in order.\<close>

fun calls_to :: "fn \<Rightarrow> event list \<Rightarrow> pyval list list" where
  "calls_to g [] = []"
| "calls_to g (Call f args # es) = (if f = g then args # calls_to g es else calls_to g es)"
| "calls_to g (Log lvl msg # es) = calls_to g es"

text \<open>
  What \<^verbatim>\<open>get_ds_instances\<close> keeps of a directory listing when \<open>D\<close> says which paths are
  directories.
\<close>

definition keep_instance :: "(string \<Rightarrow> bool) \<Rightarrow> string \<Rightarrow> string \<Rightarrow> bool" where
  "keep_instance D dir b =
     (D (os_path_join dir b) \<and> startswith b DS_INSTANCE_PREFIX \<and> \<not> endswith b ''.removed'' \<and>
      drop (length DS_INSTANCE_PREFIX) b \<noteq> [])"

text \<open>
  A computation passes \<open>P\<close> and the key \<open>k\<close> when, from every world, it only appends events
  that satisfy \<open>P\<close> to the trace and leaves what the state store holds under \<open>k\<close> alone.
\<close>

definition passes :: "(event \<Rightarrow> bool) \<Rightarrow> string \<Rightarrow> 'a run \<Rightarrow> bool" where
  "passes P k m =
     (\<forall>w. (\<exists>es. trace (snd (m w)) = trace w @ es \<and> list_all P es) \<and>
          statestore (snd (m w)) k = statestore w k)"

subsection \<open>A concrete environment for the examples\<close>

definition demo_ds :: ds where
  "demo_ds = \<lparr>realm = PStr ''EXAMPLE.COM'', fqdn = PStr ''replica.example.com'',
     domain = PStr ''example.com'', serverid = PStr ''EXAMPLE-COM'',
     suffix = PStr ''dc=example,dc=com'', dm_password = PStr ''Secret123'',
     master_fqdn = PStr ''master.example.com'', nickname = PStr ''Server-Cert'',
     subject_base = PNone, ca_subject = PNone, pkcs12_info = PNone,
     ca_is_configured = PBool True, ca_file = PNone, idstart = PNone, idmax = PNone,
     sub_dict = PNone, run_init_memberof = PBool True, domainlevel = PNone,
     promote = PBool False\<rparr>"

definition demo_world :: world where
  "demo_world = \<lparr>trace = [], statestore = Map.empty, self = demo_ds\<rparr>"

definition demo_env :: "(event list \<Rightarrow> fn \<Rightarrow> pyval list \<Rightarrow> exn + pyval) \<Rightarrow>
    (event list \<Rightarrow> string \<Rightarrow> exn + string list) \<Rightarrow>
    (event list \<Rightarrow> pyval \<Rightarrow> string list \<Rightarrow> exn + entry) \<Rightarrow> env" where
  "demo_env r l g = \<lparr>respond = r, listdir = l, get_entry = g,
     REMOVE_DS_PL = ''/usr/sbin/remove-ds.pl'', ETC_DIRSRV = ''/etc/dirsrv'',
     ETC_DIRSRV_SLAPD_INSTANCE_TEMPLATE =
       (\<lambda>v. case v of PStr s \<Rightarrow> ''/etc/dirsrv/slapd-'' @ s | _ \<Rightarrow> ''/etc/dirsrv/slapd-''),
     USR_LIB_DIRSRV = ''/usr/lib/dirsrv'', USR_LIB_DIRSRV_64 = ''/usr/lib64/dirsrv'',
     LIMITS_CONF = ''/etc/security/limits.conf'', SYSCONFIG_DIRSRV = ''/etc/sysconfig/dirsrv'',
     DS_KEYTAB = ''/etc/dirsrv/ds.keytab'', DS_USER = ''dirsrv'', DS_GROUP = ''dirsrv'',
     DOMAIN_LEVEL_0 = 0, MIN_DOMAIN_LEVEL = 0, MAX_DOMAIN_LEVEL = 1,
     STRIP_ATTRS = [''modifiersName''], EXCLUDES = [''memberof''],
     TOTAL_EXCLUDES = [''entryusn''], ScriptError_is_SystemExit = False\<rparr>"

text \<open>Oracles of the examples: no listing, no entry, every call answered with \<^verbatim>\<open>None\<close>.\<close>

definition no_listing :: "event list \<Rightarrow> string \<Rightarrow> exn + string list" where
  "no_listing h path = Inr []"

definition no_entry :: "event list \<Rightarrow> pyval \<Rightarrow> string list \<Rightarrow> exn + entry" where
  "no_entry h dn attrs = Inl NotFound"

definition all_fine :: "event list \<Rightarrow> fn \<Rightarrow> pyval list \<Rightarrow> exn + pyval" where
  "all_fine h f args = Inr PNone"


text \<open>A listing of the configuration directory, and which of its paths are directories.\<close>

definition demo_listing :: "string list" where
  "demo_listing =
     [''slapd-B'', ''config'', ''slapd-A.removed'', ''slapd-'', ''slapd-file'', ''slapd-A'']"

definition demo_isdir :: "event list \<Rightarrow> fn \<Rightarrow> pyval list \<Rightarrow> exn + pyval" where
  "demo_isdir h f args =
     (if f = os_path_isdir then Inr (PBool (args \<noteq> [PStr ''/etc/dirsrv/slapd-file'']))
      else Inr PNone)"

text \<open>The entry \<^verbatim>\<open>cn=Domain Level\<close> with \<^verbatim>\<open>ipaDomainLevel: 1\<close>.\<close>

definition level_one_entry :: "event list \<Rightarrow> pyval \<Rightarrow> string list \<Rightarrow> exn + entry" where
  "level_one_entry h dn attrs =
     Inr (\<lambda>a. if a = ''ipaDomainLevel'' then Inr (PStr ''1'') else Inl KeyError)"

text \<open>Every call answers \<^verbatim>\<open>None\<close>, and the clock answers a number.\<close>

definition with_clock :: "event list \<Rightarrow> fn \<Rightarrow> pyval list \<Rightarrow> exn + pyval" where
  "with_clock h f args = (if f = time_time then Inr (PInt 1500000000) else Inr PNone)"





definition unreadable :: "event list \<Rightarrow> fn \<Rightarrow> pyval list \<Rightarrow> exn + pyval" where
  "unreadable h f args = (if f = os_access then Inr (PBool False) else Inr PNone)"

definition load_fails :: "event list \<Rightarrow> fn \<Rightarrow> pyval list \<Rightarrow> exn + pyval" where
  "load_fails h f args =
     (if f = CertDB_load_cacert then Inl CalledProcessError
      else if f = installutils_realm_to_serverid then Inr (PStr ''EXAMPLE-COM'')
      else Inr (PBool True))"

definition was_enabled :: "event list \<Rightarrow> fn \<Rightarrow> pyval list \<Rightarrow> exn + pyval" where
  "was_enabled h f args = (if f = Service_is_enabled then Inr (PBool True) else Inr PNone)"

text \<open>Oracles and a world for the examples of \<^verbatim>\<open>uninstall\<close>.\<close>

definition removal_fails :: "event list \<Rightarrow> fn \<Rightarrow> pyval list \<Rightarrow> exn + pyval" where
  "removal_fails h f args = (if f = ipautil_run then Inl CalledProcessError else Inr PNone)"

definition enable_fails :: "event list \<Rightarrow> fn \<Rightarrow> pyval list \<Rightarrow> exn + pyval" where
  "enable_fails h f args = (if f = Service_enable then Inl CalledProcessError else Inr PNone)"

definition removal_and_restarts_fail :: "event list \<Rightarrow> fn \<Rightarrow> pyval list \<Rightarrow> exn + pyval" where
  "removal_and_restarts_fail h f args =
     (if f = ipautil_run then Inl CalledProcessError
      else if f = dirsrv_restart then Inl (OtherException ''restart'')
      else Inr (PBool True))"

definition two_others :: "event list \<Rightarrow> string \<Rightarrow> exn + string list" where
  "two_others h path = Inr [''slapd-THIRD'', ''slapd-OTHER'']"

definition installed_world :: world where
  "installed_world =
     demo_world\<lparr>statestore := [''enabled'' \<mapsto> PBool True, ''serverid'' \<mapsto> PStr ''EXAMPLE-COM'']\<rparr>"


definition load_raises_oserror :: "event list \<Rightarrow> fn \<Rightarrow> pyval list \<Rightarrow> exn + pyval" where
  "load_raises_oserror h f args =
     (if f = CertDB_load_cacert then Inl OSError
      else if f = installutils_realm_to_serverid then Inr (PStr ''EXAMPLE-COM'')
      else Inr (PBool True))"

section \<open>Running a computation\<close>

lemmas run_defs = thenE_def bindE_def catchE_def log_def emit_def call0_def call_def ret_def
  raise_def liftE_def get_self_def modify_self_def

lemma calls_to_append: "calls_to g (xs @ ys) = calls_to g xs @ calls_to g ys"
  by (induction g xs rule: calls_to.induct) auto

lemma calls_of_append: "calls_of (xs @ ys) = calls_of xs @ calls_of ys"
  by (induction xs rule: calls_of.induct) auto

section \<open>What a computation may append to the trace\<close>

lemma passesI:
  assumes "\<And>w. \<exists>es. trace (snd (m w)) = trace w @ es \<and> list_all P es"
    and "\<And>w. statestore (snd (m w)) k = statestore w k"
  shows "passes P k m"
  using assms by (simp add: passes_def)

lemma passes_trace: "passes P k m \<Longrightarrow> \<exists>es. trace (snd (m w)) = trace w @ es \<and> list_all P es"
  by (simp add: passes_def)

lemma passes_store: "passes P k m \<Longrightarrow> statestore (snd (m w)) k = statestore w k"
  by (simp add: passes_def)

lemma passes_ret [intro!]: "passes P k (ret a)"
  by (simp add: passes_def ret_def)

lemma passes_raise [intro!]: "passes P k (raise e)"
  by (simp add: passes_def raise_def)

lemma passes_liftE [intro!]: "passes P k (liftE r)"
  by (simp add: passes_def liftE_def)

lemma passes_get_self [intro!]: "passes P k get_self"
  by (simp add: passes_def get_self_def)

lemma passes_emit: "P ev \<Longrightarrow> passes P k (emit ev)"
  by (simp add: passes_def emit_def)

lemma passes_log: "P (Log lvl msg) \<Longrightarrow> passes P k (log lvl msg)"
  by (simp add: log_def passes_emit)

lemma passes_call: "P (Call f args) \<Longrightarrow> passes P k (call E f args)"
  by (simp add: passes_def call_def)

lemma passes_bindE:
  assumes m: "passes P k m" and f: "\<And>a. passes P k (f a)"
  shows "passes P k (bindE m f)"
proof (rule passesI)
  fix w
  obtain r w1 where mw: "m w = (r, w1)" by (cases "m w")
  from passes_trace [OF m, of w] mw obtain es1 where es1: "trace w1 = trace w @ es1" "list_all P es1"
    by auto
  from passes_store [OF m, of w] mw have st1: "statestore w1 k = statestore w k" by simp
  show "\<exists>es. trace (snd (bindE m f w)) = trace w @ es \<and> list_all P es"
  proof (cases r)
    case (Inl e)
    with mw es1 show ?thesis by (simp add: bindE_def)
  next
    case (Inr a)
    from passes_trace [OF f, of a w1] obtain es2 where
      "trace (snd (f a w1)) = trace w1 @ es2" "list_all P es2" by blast
    with Inr mw es1 show ?thesis by (simp add: bindE_def)
  qed
  show "statestore (snd (bindE m f w)) k = statestore w k"
  proof (cases r)
    case (Inl e)
    with mw st1 show ?thesis by (simp add: bindE_def)
  next
    case (Inr a)
    with mw st1 passes_store [OF f, of a w1] show ?thesis by (simp add: bindE_def)
  qed
qed

lemma passes_thenE: "passes P k m \<Longrightarrow> passes P k n \<Longrightarrow> passes P k (thenE m n)"
  by (simp add: thenE_def passes_bindE)

lemma passes_call0: "P (Call f args) \<Longrightarrow> passes P k (call0 E f args)"
  by (simp add: call0_def passes_bindE passes_call passes_ret)

lemma passes_catchE:
  assumes m: "passes P k m" and h: "\<And>e. passes P k (h e)"
  shows "passes P k (catchE m h)"
proof (rule passesI)
  fix w
  obtain r w1 where mw: "m w = (r, w1)" by (cases "m w")
  from passes_trace [OF m, of w] mw obtain es1 where es1: "trace w1 = trace w @ es1" "list_all P es1"
    by auto
  from passes_store [OF m, of w] mw have st1: "statestore w1 k = statestore w k" by simp
  show "\<exists>es. trace (snd (catchE m h w)) = trace w @ es \<and> list_all P es"
  proof (cases r)
    case (Inr a)
    with mw es1 show ?thesis by (simp add: catchE_def)
  next
    case (Inl e)
    from passes_trace [OF h, of e w1] obtain es2 where
      "trace (snd (h e w1)) = trace w1 @ es2" "list_all P es2" by blast
    with Inl mw es1 show ?thesis by (simp add: catchE_def)
  qed
  show "statestore (snd (catchE m h w)) k = statestore w k"
  proof (cases r)
    case (Inr a)
    with mw st1 show ?thesis by (simp add: catchE_def)
  next
    case (Inl e)
    with mw st1 passes_store [OF h, of e w1] show ?thesis by (simp add: catchE_def)
  qed
qed

lemma passes_forE: "(\<And>x. passes P k (body x)) \<Longrightarrow> passes P k (forE xs body)"
  by (induction xs) (auto intro: passes_thenE)

lemma passes_restore_state:
  "k' \<noteq> k \<Longrightarrow> P (Call Service_restore_state [PStr k']) \<Longrightarrow> passes P k (restore_state k')"
  by (simp add: passes_def restore_state_def)

lemma passes_get_state:
  "P (Call Service_get_state [PStr k']) \<Longrightarrow> passes P k (get_state k')"
  by (simp add: passes_def get_state_def)

lemma passes_remove_ds_instance:
  assumes run: "\<And>args. P (Call ipautil_run args)" and logs: "\<And>lvl msg. P (Log lvl msg)"
  shows "passes P k (remove_ds_instance E sid force)"
proof -
  have forced: "passes P k (remove_ds_instance E sid True)"
    by (cases sid) (auto intro!: passes_thenE passes_catchE passes_log passes_call0 run logs)
  show ?thesis
  proof (cases force)
    case True
    with forced show ?thesis by simp
  next
    case False
    with forced show ?thesis
      by (cases sid) (auto intro!: passes_thenE passes_catchE passes_log passes_call0 run logs
          simp del: remove_ds_instance.simps(1))
  qed
qed

lemma passes_os_listdir_call: "P (Call os_listdir [PStr path]) \<Longrightarrow> passes P k (os_listdir_call E path)"
  by (simp add: passes_def os_listdir_call_def)

lemma passes_ds_instances_loop:
  assumes "\<And>args. P (Call os_path_isdir args)"
  shows "passes P k (ds_instances_loop E dir names acc)"
  by (induction names arbitrary: acc) (auto intro!: passes_bindE passes_call assms simp: Let_def)

lemma passes_get_ds_instances:
  assumes "\<And>args. P (Call os_path_isdir args)" "\<And>args. P (Call os_listdir args)"
  shows "passes P k (get_ds_instances E)"
  unfolding get_ds_instances_def Let_def
  by (intro passes_bindE passes_os_listdir_call passes_ds_instances_loop passes_ret assms)

lemma calls_to_none: "list_all (\<lambda>e. calls_to f [e] = []) es \<Longrightarrow> calls_to f es = []"
  by (induction f es rule: calls_to.induct) (auto split: if_splits)

section \<open>Removing an instance\<close>

lemma remove_ds_instance_forced:
  "remove_ds_instance E (PStr sid) True w =
     (let h = trace w @ [Log DEBUG ''Forcing instance removal''] in
      case respond E h ipautil_run (remove_ds_args E sid True) of
        Inr v \<Rightarrow> (Inr (), w\<lparr>trace := h @ [Call ipautil_run (remove_ds_args E sid True)]\<rparr>)
      | Inl e \<Rightarrow> (Inl e, w\<lparr>trace := h @ [Call ipautil_run (remove_ds_args E sid True)] @
                   (if is_CalledProcessError e then [Log ERROR ''Instance removal failed.'']
                    else [])\<rparr>))"
  by (simp add: run_defs Let_def split: sum.splits)

lemma remove_ds_instance_unforced:
  "remove_ds_instance E (PStr sid) False w =
     (case respond E (trace w) ipautil_run (remove_ds_args E sid False) of
        Inr v \<Rightarrow> (Inr (), w\<lparr>trace := trace w @ [Call ipautil_run (remove_ds_args E sid False)]\<rparr>)
      | Inl e \<Rightarrow>
          if is_CalledProcessError e then
            remove_ds_instance E (PStr sid) True
              (w\<lparr>trace := trace w @ [Call ipautil_run (remove_ds_args E sid False),
                   Log DEBUG '''%s' failed. Attempting to force removal'']\<rparr>)
          else (Inl e, w\<lparr>trace := trace w @ [Call ipautil_run (remove_ds_args E sid False)]\<rparr>))"
  by (simp add: run_defs split: sum.splits)



section \<open>Listing the instances\<close>

lemma ds_instances_loop_scan:
  assumes "\<And>h p. respond E h os_path_isdir [PStr p] = Inr (PBool (D p))"
  shows "ds_instances_loop E dir names acc w =
     (Inr (acc @ map (drop (length DS_INSTANCE_PREFIX)) (filter (keep_instance D dir) names)),
      w\<lparr>trace := trace w @ map (\<lambda>b. Call os_path_isdir [PStr (os_path_join dir b)]) names\<rparr>)"
proof (induction names arbitrary: acc w)
  case Nil
  show ?case by (simp add: ret_def)
next
  case (Cons b rest)
  show ?case
    by (simp add: bindE_def call_def assms Cons.IH keep_instance_def Let_def)
qed

lemma startswith_split: "startswith b p \<Longrightarrow> b = p @ drop (length p) b"
  by (metis append_take_drop_id startswith_def)

lemma startswith_append: "startswith (p @ x) p"
  by (simp add: startswith_def)

lemma kept_names:
  "set (map (drop (length DS_INSTANCE_PREFIX)) (filter (keep_instance D dir) names)) =
     {X. X \<noteq> [] \<and> DS_INSTANCE_PREFIX @ X \<in> set names \<and>
         D (os_path_join dir (DS_INSTANCE_PREFIX @ X)) \<and>
         \<not> endswith (DS_INSTANCE_PREFIX @ X) ''.removed''}" (is "?L = ?R")
proof (intro set_eqI iffI)
  fix X assume "X \<in> ?L"
  then obtain b where b: "b \<in> set names" "keep_instance D dir b"
    and X: "X = drop (length DS_INSTANCE_PREFIX) b" by auto
  from b(2) have "startswith b DS_INSTANCE_PREFIX" by (simp add: keep_instance_def)
  then have eq: "DS_INSTANCE_PREFIX @ X = b" using X startswith_split by metis
  from b(2) have "X \<noteq> []" "D (os_path_join dir b)" "\<not> endswith b ''.removed''"
    unfolding keep_instance_def X by blast+
  with b(1) show "X \<in> ?R" unfolding eq [symmetric] by blast
next
  fix X assume "X \<in> ?R"
  then have "keep_instance D dir (DS_INSTANCE_PREFIX @ X)" "DS_INSTANCE_PREFIX @ X \<in> set names"
    by (auto simp: keep_instance_def startswith_append)
  then have "drop (length DS_INSTANCE_PREFIX) (DS_INSTANCE_PREFIX @ X) \<in> ?L"
    unfolding set_map set_filter by blast
  then show "X \<in> ?L" by simp
qed

text \<open>
  Claim C8. When \<^verbatim>\<open>os.listdir\<close> answers \<open>names\<close> and \<^verbatim>\<open>os.path.isdir\<close> answers by the
  predicate \<open>D\<close>, \<^verbatim>\<open>get_ds_instances()\<close> returns a sorted list whose elements are exactly
  the non-empty \<open>X\<close> such that \<^verbatim>\<open>slapd-\<close>\<open>X\<close> is a listed name, is a directory and does not
  end in \<^verbatim>\<open>.removed\<close>; the list repeats no name when the listing repeats none.
\<close>

theorem get_ds_instances_sorted_exact:
  assumes isdir: "\<And>h p. respond E h os_path_isdir [PStr p] = Inr (PBool (D p))"
    and names: "listdir E (trace w) (ETC_DIRSRV E) = Inr names"
  shows "\<exists>res w'. get_ds_instances E w = (Inr res, w') \<and> sorted res \<and>
     set res = {X. X \<noteq> [] \<and> DS_INSTANCE_PREFIX @ X \<in> set names \<and>
                   D (os_path_join (ETC_DIRSRV E) (DS_INSTANCE_PREFIX @ X)) \<and>
                   \<not> endswith (DS_INSTANCE_PREFIX @ X) ''.removed''} \<and>
     (distinct names \<longrightarrow> distinct res)"
proof -
  let ?dir = "ETC_DIRSRV E"
  let ?found = "map (drop (length DS_INSTANCE_PREFIX)) (filter (keep_instance D ?dir) names)"
  have run: "fst (get_ds_instances E w) = Inr (sort ?found)"
    by (simp add: get_ds_instances_def Let_def os_listdir_call_def bindE_def names ret_def
        ds_instances_loop_scan [of E D, OF isdir])
  have inj: "inj_on (drop (length DS_INSTANCE_PREFIX)) (set (filter (keep_instance D ?dir) names))"
  proof (rule inj_onI)
    fix a b
    assume a: "a \<in> set (filter (keep_instance D ?dir) names)"
      and b: "b \<in> set (filter (keep_instance D ?dir) names)"
      and eq: "drop (length DS_INSTANCE_PREFIX) a = drop (length DS_INSTANCE_PREFIX) b"
    from a have "a = DS_INSTANCE_PREFIX @ drop (length DS_INSTANCE_PREFIX) a"
      by (intro startswith_split) (simp add: keep_instance_def)
    moreover from b have "b = DS_INSTANCE_PREFIX @ drop (length DS_INSTANCE_PREFIX) b"
      by (intro startswith_split) (simp add: keep_instance_def)
    ultimately show "a = b" using eq by metis
  qed
  have dist: "distinct names \<Longrightarrow> distinct (sort ?found)"
    using inj by (simp add: distinct_map)
  from run dist kept_names [of D ?dir names] show ?thesis
    by (cases "get_ds_instances E w") auto
qed

theorem get_ds_instances_sorted_exact_witness:
  "\<exists>res w'. get_ds_instances (demo_env demo_isdir (\<lambda>h p. Inr demo_listing) no_entry) demo_world
       = (Inr res, w') \<and>
      sorted res \<and> set res = {''A'', ''B''} \<and> distinct res"
proof -
  let ?E = "demo_env demo_isdir (\<lambda>h p. Inr demo_listing) no_entry"
  have 1: "\<And>h p. respond ?E h os_path_isdir [PStr p] =
      Inr (PBool (p \<noteq> ''/etc/dirsrv/slapd-file''))"
    by (simp add: demo_env_def demo_isdir_def)
  have 2: "listdir ?E (trace demo_world) (ETC_DIRSRV ?E) = Inr demo_listing"
    by (simp add: demo_env_def)
  have 3: "{X. X \<noteq> [] \<and> DS_INSTANCE_PREFIX @ X \<in> set demo_listing \<and>
               os_path_join (ETC_DIRSRV ?E) (DS_INSTANCE_PREFIX @ X) \<noteq> ''/etc/dirsrv/slapd-file'' \<and>
               \<not> endswith (DS_INSTANCE_PREFIX @ X) ''.removed''} = {''A'', ''B''}"
    by (auto simp add: demo_listing_def DS_INSTANCE_PREFIX_def demo_env_def os_path_join_def
        endswith_def)
  have 4: "distinct demo_listing"
    by (simp add: demo_listing_def)
  show ?thesis
    using get_ds_instances_sorted_exact
      [of ?E "\<lambda>p. p \<noteq> ''/etc/dirsrv/slapd-file''" demo_world demo_listing, OF 1 2] 4
    unfolding 3 by blast
qed

section \<open>Reading the domain level\<close>

text \<open>
  Claim C7. When building the URI, creating the client and binding succeed,
  \<^verbatim>\<open>get_domain_level\<close> asks for the entry \<^verbatim>\<open>cn=Domain Level,cn=ipa,cn=etc,<basedn>\<close> right after
  these three calls. When that lookup raises \<^verbatim>\<open>NotFound\<close> the result is \<open>DOMAIN_LEVEL_0\<close>;
  when it answers an entry the result is \<^verbatim>\<open>int\<close> of the entry's \<^verbatim>\<open>ipaDomainLevel\<close> value;
  any other exception of the lookup is raised.
\<close>

theorem get_domain_level_floor_or_value:
  assumes ok: "\<And>h f args. \<exists>v. respond E h f args = Inr v"
  shows "\<exists>h es. h = trace w @ es \<and>
     calls_of es = [ipaldap_get_ldap_uri, LDAPClient_init, LDAPClient_external_bind] \<and>
     fst (get_domain_level E api_env_realm api_env_basedn w) =
       (case get_entry E h
               (DN [PStr ''cn=Domain Level'', PStr ''cn=ipa'', PStr ''cn=etc'', api_env_basedn])
               [''ipaDomainLevel''] of
          Inl e \<Rightarrow> if is_NotFound e then Inr (DOMAIN_LEVEL_0 E) else Inl e
        | Inr entry \<Rightarrow> (case entry ''ipaDomainLevel'' of Inl e \<Rightarrow> Inl e | Inr v \<Rightarrow> py_int v))"
proof -
  from ok obtain ans where ans: "\<And>h f args. respond E h f args = Inr (ans h f args)"
    by metis
  let ?uri = "ans (trace w) ipaldap_get_ldap_uri [PStr ''ldapi'', api_env_realm]"
  let ?es = "[Call ipaldap_get_ldap_uri [PStr ''ldapi'', api_env_realm],
              Call LDAPClient_init [?uri], Call LDAPClient_external_bind []]"
  show ?thesis
    apply (rule exI [of _ "trace w @ ?es"])
    apply (rule exI [of _ ?es])
    apply (simp add: get_domain_level_def get_entry_call_def run_defs ans Let_def
        split: sum.splits option.splits)
    done
qed

lemma parse_int_one: "parse_int ''1'' = Some 1"
  by (simp add: parse_int_def strip_def is_space_def is_digit_def digits_val_def Let_def)

theorem get_domain_level_floor_or_value_witness:
  "fst (get_domain_level (demo_env all_fine no_listing level_one_entry)
          (PStr ''EXAMPLE.COM'') (PStr ''dc=example,dc=com'') demo_world) = Inr 1 \<and>
   fst (get_domain_level (demo_env all_fine no_listing no_entry)
          (PStr ''EXAMPLE.COM'') (PStr ''dc=example,dc=com'') demo_world) = Inr 0"
  using get_domain_level_floor_or_value
      [of "demo_env all_fine no_listing level_one_entry" demo_world "PStr ''EXAMPLE.COM''"
          "PStr ''dc=example,dc=com''"]
    get_domain_level_floor_or_value
      [of "demo_env all_fine no_listing no_entry" demo_world "PStr ''EXAMPLE.COM''"
          "PStr ''dc=example,dc=com''"]
  by (simp add: demo_env_def all_fine_def level_one_entry_def no_entry_def is_NotFound_def
      parse_int_one)

section \<open>The id range of a replica\<close>

lemma setup_sub_dict_idrange:
  assumes ans: "\<And>h f args. respond E h f args = Inr (ans h f args)"
    and tm: "\<And>h. ans h time_time [] = PInt (tm h)"
  shows "\<exists>w'. DsInstance__setup_sub_dict E w = (Inr (), w') \<and>
     py_getitem (sub_dict (self w')) ''IDRANGE_SIZE'' =
       Inr (case (as_number (idmax (self w)), as_number (idstart (self w))) of
              (Some a, Some b) \<Rightarrow> PInt (a - b + 1) | _ \<Rightarrow> PNone) \<and>
     py_getitem (sub_dict (self w')) ''IDSTART'' = Inr (idstart (self w)) \<and>
     py_getitem (sub_dict (self w')) ''IDMAX'' = Inr (idmax (self w)) \<and>
     idstart (self w') = idstart (self w) \<and> idmax (self w') = idmax (self w)"
  by (simp add: DsInstance__setup_sub_dict_def find_server_root_def run_defs ans tm py_sub_def
      is_TypeError_def split: option.splits)

text \<open>
  Claim C9. When the collaborators called on the way answer (and the clock answers a
  number), \<^verbatim>\<open>create_replica\<close> leaves \<open>idstart = 1101\<close> and \<open>idmax = 1100\<close> on the instance
  and \<open>IDRANGE_SIZE = 0\<close> in the substitution dictionary, whatever its arguments; and
  \<^verbatim>\<open>__setup_sub_dict\<close> on an instance whose \<open>idstart\<close> or \<open>idmax\<close> is \<^verbatim>\<open>None\<close> returns
  normally with \<open>IDRANGE_SIZE\<close> set to \<^verbatim>\<open>None\<close>.
\<close>

theorem create_replica_idrange_depleted:
  assumes ok: "\<And>h f args. \<exists>v. respond E h f args = Inr v"
    and clock: "\<And>h. \<exists>n. respond E h time_time [] = Inr (PInt n)"
  shows "(\<exists>w'. create_replica E realm_name master_fqdn' fqdn' domain_name dm_password' subject_base'
              ca_subject' pkcs12_info' ca_file' ca_is_configured' promote' w = (Inr (), w') \<and>
            idstart (self w') = PInt 1101 \<and> idmax (self w') = PInt 1100 \<and>
            py_getitem (sub_dict (self w')) ''IDRANGE_SIZE'' = Inr (PInt 0)) \<and>
         (idstart (self w) = PNone \<or> idmax (self w) = PNone \<longrightarrow>
            (\<exists>w'. DsInstance__setup_sub_dict E w = (Inr (), w') \<and>
               py_getitem (sub_dict (self w')) ''IDRANGE_SIZE'' = Inr PNone))"
proof -
  from ok obtain ans where ans: "\<And>h f args. respond E h f args = Inr (ans h f args)"
    by metis
  from clock ans have "\<And>h. \<exists>n. ans h time_time [] = PInt n"
    by (metis sum.inject(2))
  then obtain tm where tm: "\<And>h. ans h time_time [] = PInt (tm h)"
    by metis
  have replica: "\<exists>w'. create_replica E realm_name master_fqdn' fqdn' domain_name dm_password'
        subject_base' ca_subject' pkcs12_info' ca_file' ca_is_configured' promote' w = (Inr (), w') \<and>
      idstart (self w') = PInt 1101 \<and> idmax (self w') = PInt 1100 \<and>
      py_getitem (sub_dict (self w')) ''IDRANGE_SIZE'' = Inr (PInt 0)"
    by (simp add: create_replica_def init_info_def DsInstance__setup_sub_dict_def
        find_server_root_def run_defs ans tm py_sub_def is_TypeError_def Let_def)
  have unset: "idstart (self w) = PNone \<or> idmax (self w) = PNone \<Longrightarrow>
      \<exists>w'. DsInstance__setup_sub_dict E w = (Inr (), w') \<and>
         py_getitem (sub_dict (self w')) ''IDRANGE_SIZE'' = Inr PNone"
    using setup_sub_dict_idrange [of E ans tm w, OF ans tm]
    by (auto split: option.splits)
  from replica unset show ?thesis by blast
qed

theorem create_replica_idrange_depleted_witness:
  "(\<exists>w'. create_replica (demo_env with_clock no_listing no_entry) ''example.com''
             (PStr ''master.example.com'') (PStr ''replica.example.com'') (PStr ''example.com'')
             (PStr ''Secret123'') PNone PNone PNone PNone PNone (PBool False) demo_world
           = (Inr (), w') \<and>
          idstart (self w') = PInt 1101 \<and> idmax (self w') = PInt 1100 \<and>
          py_getitem (sub_dict (self w')) ''IDRANGE_SIZE'' = Inr (PInt 0)) \<and>
   (\<exists>w'. DsInstance__setup_sub_dict (demo_env with_clock no_listing no_entry) demo_world
           = (Inr (), w') \<and>
          py_getitem (sub_dict (self w')) ''IDRANGE_SIZE'' = Inr PNone)"
proof -
  let ?E = "demo_env with_clock no_listing no_entry"
  have 1: "\<And>h f args. \<exists>v. respond ?E h f args = Inr v"
    by (simp add: demo_env_def with_clock_def)
  have 2: "\<And>h. \<exists>n. respond ?E h time_time [] = Inr (PInt n)"
    by (simp add: demo_env_def with_clock_def)
  have 3: "idstart (self demo_world) = PNone"
    by (simp add: demo_world_def demo_ds_def)
  show ?thesis
    using create_replica_idrange_depleted [of ?E "''example.com''" "PStr ''master.example.com''"
        "PStr ''replica.example.com''" "PStr ''example.com''" "PStr ''Secret123''" PNone PNone
        PNone PNone PNone "PBool False" demo_world, OF 1 2] 3
    by blast
qed

section \<open>Restarting the directory server\<close>














section \<open>Setting up replication\<close>




section \<open>The memberof fixup\<close>





section \<open>Adding a CA certificate\<close>

lemma add_ca_cert_unreadable:
  assumes "respond E (trace w) os_access [PStr f, PStr ''R_OK''] = Inr v" and "\<not> truthy v"
  shows "add_ca_cert E f n w =
     (Inr False, w\<lparr>trace := trace w @ [Call os_access [PStr f, PStr ''R_OK''],
        Log CRITICAL ''The given CA cert file named [%s] could not be read'']\<rparr>)"
  using assms by (simp add: add_ca_cert_def run_defs)

lemma add_ca_cert_access_error:
  assumes "respond E (trace w) os_access [PStr f, PStr ''R_OK''] = Inl e" and "is_OSError e"
  shows "add_ca_cert E f n w =
     (Inr False, w\<lparr>trace := trace w @ [Call os_access [PStr f, PStr ''R_OK''],
        Log CRITICAL ''The given CA cert file named [%s] could not be read: %s'']\<rparr>)"
  using assms by (simp add: add_ca_cert_def run_defs)

lemma add_ca_cert_readable:
  assumes acc: "respond E (trace w) os_access [PStr f, PStr ''R_OK''] = Inr v" "truthy v"
    and ans: "\<And>h g args. g \<noteq> CertDB_load_cacert \<Longrightarrow> respond E h g args = Inr (ans h g args)"
    and cpe: "\<And>h args e. respond E h CertDB_load_cacert args = Inl e \<Longrightarrow> is_CalledProcessError e"
  shows "\<exists>status w' es mid hl rest. add_ca_cert E f n w = (Inr status, w') \<and>
     trace w' = trace w @ es \<and>
     calls_of es = [os_access, ldap2_isconnected] @ mid @
        [Service_stop, installutils_realm_to_serverid, CertDB_init, CertDB_set_cacert_name,
         CertDB_load_cacert, Service_start, ldap2_connect] \<and>
     (mid = [] \<or> mid = [ldap2_disconnect]) \<and>
     trace w' = hl @ Call CertDB_load_cacert [PStr f, PStr ''C,,''] # rest \<and>
     status = (\<exists>r. respond E hl CertDB_load_cacert [PStr f, PStr ''C,,''] = Inr r)"
proof -
  let ?h1 = "trace w @ [Call os_access [PStr f, PStr ''R_OK'']]"
  let ?conn = "truthy (ans ?h1 ldap2_isconnected [])"
  let ?h2 = "?h1 @ [Call ldap2_isconnected []] @ (if ?conn then [Call ldap2_disconnect []] else [])
      @ [Call Service_stop []]"
  let ?sid = "ans ?h2 installutils_realm_to_serverid [realm (self w)]"
  let ?hl = "?h2 @ [Call installutils_realm_to_serverid [realm (self w)],
      Call CertDB_init [realm (self w), PStr (config_dirname E ?sid), subject_base (self w),
        ca_subject (self w)],
      Call CertDB_set_cacert_name [PStr (if n = [] \<or> length n = 0 then ''Imported CA'' else n)]]"
  show ?thesis
  proof (cases "respond E ?hl CertDB_load_cacert [PStr f, PStr ''C,,'']")
    case (Inr r)
    show ?thesis
      apply (rule exI [of _ True])
      apply (rule exI [of _ "w\<lparr>trace := ?hl @ [Call CertDB_load_cacert [PStr f, PStr ''C,,''],
          Call Service_start [], Call ldap2_connect []]\<rparr>"])
      apply (rule exI [of _ "drop (length (trace w)) (?hl @ [Call CertDB_load_cacert [PStr f, PStr ''C,,''],
          Call Service_start [], Call ldap2_connect []])"])
      apply (rule exI [of _ "if ?conn then [ldap2_disconnect] else []"])
      apply (rule exI [of _ ?hl])
      apply (rule exI [of _ "[Call Service_start [], Call ldap2_connect []]"])
      using acc Inr
      apply (cases "truthy (ans (trace w @ [Call os_access [PStr f, PStr ''R_OK'']]) ldap2_isconnected [])"; cases "n = []")
      apply (simp_all add: add_ca_cert_def stop_def start_def run_defs ans Let_def)
      done
  next
    case (Inl e)
    then have e: "is_CalledProcessError e" by (rule cpe)
    show ?thesis
      apply (rule exI [of _ False])
      apply (rule exI [of _ "w\<lparr>trace := ?hl @ [Call CertDB_load_cacert [PStr f, PStr ''C,,''],
          Log CRITICAL ''Error importing CA cert file named [%s]: %s'',
          Call Service_start [], Call ldap2_connect []]\<rparr>"])
      apply (rule exI [of _ "drop (length (trace w)) (?hl @ [Call CertDB_load_cacert [PStr f, PStr ''C,,''],
          Log CRITICAL ''Error importing CA cert file named [%s]: %s'',
          Call Service_start [], Call ldap2_connect []])"])
      apply (rule exI [of _ "if ?conn then [ldap2_disconnect] else []"])
      apply (rule exI [of _ ?hl])
      apply (rule exI [of _ "[Log CRITICAL ''Error importing CA cert file named [%s]: %s'',
          Call Service_start [], Call ldap2_connect []]"])
      using acc Inl e
      apply (cases "truthy (ans (trace w @ [Call os_access [PStr f, PStr ''R_OK'']]) ldap2_isconnected [])"; cases "n = []")
      apply (simp_all add: add_ca_cert_def stop_def start_def run_defs ans Let_def)
      done
  qed
qed

text \<open>
  Claim C10, as amended. When \<^verbatim>\<open>os.access\<close> answers false, or raises \<^verbatim>\<open>OSError\<close>,
  \<^verbatim>\<open>add_ca_cert\<close> returns \<^verbatim>\<open>False\<close> and the only events are the check and one log line:
  nothing is stopped, started or loaded. When the check passes, the other collaborators
  answer and the load fails only with a process error (\<^verbatim>\<open>ipautil.CalledProcessError\<close>), the
  calls are, in order: the check, \<^verbatim>\<open>isconnected\<close> (and \<^verbatim>\<open>disconnect\<close> when connected), the
  stop of the service, the certificate database and the load, then the start of the service
  and the reconnect; the method returns normally, with \<^verbatim>\<open>True\<close> exactly when the load
  answered and \<^verbatim>\<open>False\<close> when it raised the process error.
\<close>

theorem add_ca_cert_check_then_stop_start:
  "(\<forall>v. respond E (trace w) os_access [PStr f, PStr ''R_OK''] = Inr v \<and> \<not> truthy v \<longrightarrow>
      add_ca_cert E f n w =
        (Inr False, w\<lparr>trace := trace w @ [Call os_access [PStr f, PStr ''R_OK''],
           Log CRITICAL ''The given CA cert file named [%s] could not be read'']\<rparr>)) \<and>
   (\<forall>e. respond E (trace w) os_access [PStr f, PStr ''R_OK''] = Inl e \<and> is_OSError e \<longrightarrow>
      add_ca_cert E f n w =
        (Inr False, w\<lparr>trace := trace w @ [Call os_access [PStr f, PStr ''R_OK''],
           Log CRITICAL ''The given CA cert file named [%s] could not be read: %s'']\<rparr>)) \<and>
   ((\<exists>v. respond E (trace w) os_access [PStr f, PStr ''R_OK''] = Inr v \<and> truthy v) \<and>
    (\<forall>h g args. g \<noteq> CertDB_load_cacert \<longrightarrow> (\<exists>r. respond E h g args = Inr r)) \<and>
    (\<forall>h args e. respond E h CertDB_load_cacert args = Inl e \<longrightarrow> is_CalledProcessError e) \<longrightarrow>
      (\<exists>status w' es mid hl rest. add_ca_cert E f n w = (Inr status, w') \<and>
         trace w' = trace w @ es \<and>
         calls_of es = [os_access, ldap2_isconnected] @ mid @
            [Service_stop, installutils_realm_to_serverid, CertDB_init, CertDB_set_cacert_name,
             CertDB_load_cacert, Service_start, ldap2_connect] \<and>
         (mid = [] \<or> mid = [ldap2_disconnect]) \<and>
         trace w' = hl @ Call CertDB_load_cacert [PStr f, PStr ''C,,''] # rest \<and>
         status = (\<exists>r. respond E hl CertDB_load_cacert [PStr f, PStr ''C,,''] = Inr r)))"
proof (intro conjI allI impI)
  fix v assume "respond E (trace w) os_access [PStr f, PStr ''R_OK''] = Inr v \<and> \<not> truthy v"
  then show "add_ca_cert E f n w =
        (Inr False, w\<lparr>trace := trace w @ [Call os_access [PStr f, PStr ''R_OK''],
           Log CRITICAL ''The given CA cert file named [%s] could not be read'']\<rparr>)"
    by (intro add_ca_cert_unreadable) blast+
next
  fix e assume "respond E (trace w) os_access [PStr f, PStr ''R_OK''] = Inl e \<and> is_OSError e"
  then show "add_ca_cert E f n w =
        (Inr False, w\<lparr>trace := trace w @ [Call os_access [PStr f, PStr ''R_OK''],
           Log CRITICAL ''The given CA cert file named [%s] could not be read: %s'']\<rparr>)"
    by (intro add_ca_cert_access_error) blast+
next
  assume a: "(\<exists>v. respond E (trace w) os_access [PStr f, PStr ''R_OK''] = Inr v \<and> truthy v) \<and>
    (\<forall>h g args. g \<noteq> CertDB_load_cacert \<longrightarrow> (\<exists>r. respond E h g args = Inr r)) \<and>
    (\<forall>h args e. respond E h CertDB_load_cacert args = Inl e \<longrightarrow> is_CalledProcessError e)"
  then obtain v where v: "respond E (trace w) os_access [PStr f, PStr ''R_OK''] = Inr v" "truthy v"
    by blast
  from a have "\<forall>h g args. \<exists>r. g \<noteq> CertDB_load_cacert \<longrightarrow> respond E h g args = Inr r"
    by blast
  then obtain ans where
    ans: "\<And>h g args. g \<noteq> CertDB_load_cacert \<Longrightarrow> respond E h g args = Inr (ans h g args)"
    by metis
  from a have cpe: "\<And>h args e. respond E h CertDB_load_cacert args = Inl e \<Longrightarrow> is_CalledProcessError e"
    by blast
  show "\<exists>status w' es mid hl rest. add_ca_cert E f n w = (Inr status, w') \<and>
         trace w' = trace w @ es \<and>
         calls_of es = [os_access, ldap2_isconnected] @ mid @
            [Service_stop, installutils_realm_to_serverid, CertDB_init, CertDB_set_cacert_name,
             CertDB_load_cacert, Service_start, ldap2_connect] \<and>
         (mid = [] \<or> mid = [ldap2_disconnect]) \<and>
         trace w' = hl @ Call CertDB_load_cacert [PStr f, PStr ''C,,''] # rest \<and>
         status = (\<exists>r. respond E hl CertDB_load_cacert [PStr f, PStr ''C,,''] = Inr r)"
    by (rule add_ca_cert_readable [OF v ans cpe])
qed

theorem add_ca_cert_check_then_stop_start_witness:
  "add_ca_cert (demo_env unreadable no_listing no_entry) ''/root/ca.crt'' [] demo_world =
     (Inr False, demo_world\<lparr>trace := [Call os_access [PStr ''/root/ca.crt'', PStr ''R_OK''],
        Log CRITICAL ''The given CA cert file named [%s] could not be read'']\<rparr>) \<and>
   (\<exists>w' es mid. add_ca_cert (demo_env load_fails no_listing no_entry) ''/root/ca.crt'' []
         demo_world = (Inr False, w') \<and>
      trace w' = trace demo_world @ es \<and>
      calls_of es = [os_access, ldap2_isconnected] @ mid @
        [Service_stop, installutils_realm_to_serverid, CertDB_init, CertDB_set_cacert_name,
         CertDB_load_cacert, Service_start, ldap2_connect])"
proof -
  let ?U = "demo_env unreadable no_listing no_entry"
  let ?L = "demo_env load_fails no_listing no_entry"
  have u: "respond ?U (trace demo_world) os_access [PStr ''/root/ca.crt'', PStr ''R_OK''] =
      Inr (PBool False) \<and> \<not> truthy (PBool False)"
    by (simp add: demo_env_def unreadable_def)
  have l: "(\<exists>v. respond ?L (trace demo_world) os_access [PStr ''/root/ca.crt'', PStr ''R_OK'']
        = Inr v \<and> truthy v) \<and>
    (\<forall>h g args. g \<noteq> CertDB_load_cacert \<longrightarrow> (\<exists>r. respond ?L h g args = Inr r)) \<and>
    (\<forall>h args e. respond ?L h CertDB_load_cacert args = Inl e \<longrightarrow> is_CalledProcessError e)"
    by (simp add: demo_env_def load_fails_def is_CalledProcessError_def)
  have never: "\<And>hl. \<not> (\<exists>r. respond ?L hl CertDB_load_cacert [PStr ''/root/ca.crt'', PStr ''C,,'']
      = Inr r)"
    by (simp add: demo_env_def load_fails_def)
  from add_ca_cert_check_then_stop_start [of ?U demo_world "''/root/ca.crt''" "[]"] u
  have 1: "add_ca_cert ?U ''/root/ca.crt'' [] demo_world =
     (Inr False, demo_world\<lparr>trace := trace demo_world @
        [Call os_access [PStr ''/root/ca.crt'', PStr ''R_OK''],
         Log CRITICAL ''The given CA cert file named [%s] could not be read'']\<rparr>)"
    by blast
  from add_ca_cert_check_then_stop_start [of ?L demo_world "''/root/ca.crt''" "[]"] l
  obtain status w' es mid hl where
    r: "add_ca_cert ?L ''/root/ca.crt'' [] demo_world = (Inr status, w')"
      "trace w' = trace demo_world @ es"
      "calls_of es = [os_access, ldap2_isconnected] @ mid @
        [Service_stop, installutils_realm_to_serverid, CertDB_init, CertDB_set_cacert_name,
         CertDB_load_cacert, Service_start, ldap2_connect]"
      "status = (\<exists>r. respond ?L hl CertDB_load_cacert [PStr ''/root/ca.crt'', PStr ''C,,''] = Inr r)"
    by blast
  from r(4) never have "status = False" by blast
  with r(1-3) have 2: "\<exists>w' es mid. add_ca_cert ?L ''/root/ca.crt'' [] demo_world = (Inr False, w') \<and>
      trace w' = trace demo_world @ es \<and>
      calls_of es = [os_access, ldap2_isconnected] @ mid @
        [Service_stop, installutils_realm_to_serverid, CertDB_init, CertDB_set_cacert_name,
         CertDB_load_cacert, Service_start, ldap2_connect]"
    by blast
  from 1 2 show ?thesis by (simp add: demo_world_def)
qed

text \<open>
  The claim as stated fails: the file is readable and the load of the certificate raises
  \<^verbatim>\<open>OSError\<close>, which \<^verbatim>\<open>except ipautil.CalledProcessError\<close> does not catch. \<^verbatim>\<open>add_ca_cert\<close>
  raises it instead of returning \<^verbatim>\<open>False\<close>, and the service, stopped once, is never started.
\<close>

theorem add_ca_cert_raises_and_leaves_stopped:
  "respond (demo_env load_raises_oserror no_listing no_entry) []
      os_access [PStr ''/root/ca.crt'', PStr ''R_OK''] = Inr (PBool True) \<and>
   fst (add_ca_cert (demo_env load_raises_oserror no_listing no_entry) ''/root/ca.crt'' []
          demo_world) = Inl OSError \<and>
   calls_of (trace (snd (add_ca_cert (demo_env load_raises_oserror no_listing no_entry)
          ''/root/ca.crt'' [] demo_world))) =
     [os_access, ldap2_isconnected, ldap2_disconnect, Service_stop,
      installutils_realm_to_serverid, CertDB_init, CertDB_set_cacert_name, CertDB_load_cacert]"
  by (simp add: add_ca_cert_def stop_def start_def run_defs demo_env_def demo_world_def
      load_raises_oserror_def is_OSError_def is_CalledProcessError_def Let_def)


section \<open>The enabled flag\<close>

lemma enable_backs_up_then_disables:
  assumes "respond E (trace w) Service_is_enabled [] = Inr v"
  shows "\<exists>r w1. DsInstance__enable E w = (r, w1) \<and>
     trace w1 = trace w @ [Call Service_is_enabled [], Call Service_backup_state [PStr ''enabled'', v],
        Call Service_disable []] \<and>
     statestore w1 ''enabled'' = Some (case statestore w ''enabled'' of None \<Rightarrow> v | Some old \<Rightarrow> old)"
  using assms
  by (auto simp add: DsInstance__enable_def backup_state_def run_defs split: sum.splits option.splits)

lemma uninstall_restore_service_enables:
  assumes "uninstall_restore_service E w = (r, w1)"
  shows "\<exists>es. trace w1 = trace w @ es \<and>
     (r = Inr () \<longrightarrow> statestore w1 ''enabled'' = None \<and>
        calls_to Service_enable es =
          (if truthy (case statestore w ''enabled'' of None \<Rightarrow> PNone | Some v \<Rightarrow> v)
           then [[]] else []))"
  using assms
  by (auto simp add: uninstall_restore_service_def restore_state_def run_defs
      split: sum.splits option.splits if_splits)

lemma passes_stop_tracking_certificates:
  assumes "\<And>f args. P (Call f args)"
  shows "passes P k (stop_tracking_certificates E sid)"
  unfolding stop_tracking_certificates_def
  by (auto intro!: passes_bindE passes_thenE passes_call0 passes_get_state assms simp: Let_def)

lemma passes_uninstall_try_remove:
  assumes "\<And>f args. P (Call f args)" "\<And>lvl msg. P (Log lvl msg)"
  shows "passes P k (uninstall_try_remove E sid)"
  unfolding uninstall_try_remove_def
  by (auto intro!: passes_catchE passes_thenE passes_call0 passes_log passes_remove_ds_instance
      assms simp del: remove_ds_instance.simps)

lemma passes_uninstall_restart_remaining:
  assumes "\<And>f args. P (Call f args)" "\<And>lvl msg. P (Log lvl msg)"
  shows "passes P k (uninstall_restart_remaining E)"
  unfolding uninstall_restart_remaining_def restart_remaining_instance_def
  by (auto intro!: passes_bindE passes_forE passes_catchE passes_call0 passes_log
      passes_get_ds_instances assms)

lemma uninstall_tail_no_enable:
  "passes (\<lambda>e. calls_to Service_enable [e] = []) ''enabled''
     (thenE (uninstall_remove_instance E) (thenE uninstall_drop_state (uninstall_restart_remaining E)))"
proof -
  let ?P = "\<lambda>e. calls_to Service_enable [e] = []"
  have logs: "\<And>lvl msg. ?P (Log lvl msg)" by simp
  have 1: "passes ?P ''enabled'' (uninstall_remove_instance E)"
    unfolding uninstall_remove_instance_def stop_tracking_certificates_def uninstall_try_remove_def
    by (auto intro!: passes_bindE passes_thenE passes_catchE passes_call0 passes_log
        passes_restore_state passes_get_state passes_remove_ds_instance simp: Let_def
        simp del: remove_ds_instance.simps)
  have 2: "passes ?P ''enabled'' uninstall_drop_state"
    unfolding uninstall_drop_state_def
    by (auto intro!: passes_bindE passes_thenE passes_restore_state)
  have 3: "passes ?P ''enabled'' (uninstall_restart_remaining E)"
    unfolding uninstall_restart_remaining_def restart_remaining_instance_def
    by (auto intro!: passes_bindE passes_forE passes_catchE passes_call0 passes_log
        passes_get_ds_instances)
  from 1 2 3 show ?thesis by (intro passes_thenE)
qed

lemma uninstall_enables_iff_backed_up:
  assumes run: "uninstall E w = (Inr u, w')"
  shows "\<exists>es. trace w' = trace w @ es \<and> statestore w' ''enabled'' = None \<and>
     calls_to Service_enable es =
       (if truthy (case statestore w ''enabled'' of None \<Rightarrow> PNone | Some v \<Rightarrow> v)
        then [[]] else [])"
proof -
  let ?tail = "thenE (uninstall_remove_instance E)
      (thenE uninstall_drop_state (uninstall_restart_remaining E))"
  obtain r w1 where b1: "uninstall_restore_service E w = (r, w1)"
    by (cases "uninstall_restore_service E w")
  from run b1 have r: "r = Inr ()" and tail: "?tail w1 = (Inr u, w')"
    by (auto simp add: uninstall_def thenE_def bindE_def split: sum.splits)
  from uninstall_restore_service_enables [OF b1] r obtain es1 where
    es1: "trace w1 = trace w @ es1" "statestore w1 ''enabled'' = None"
      "calls_to Service_enable es1 =
        (if truthy (case statestore w ''enabled'' of None \<Rightarrow> PNone | Some v \<Rightarrow> v)
         then [[]] else [])"
    by blast
  from passes_trace [OF uninstall_tail_no_enable, of E w1] tail obtain es2 where
    es2: "trace w' = trace w1 @ es2" "list_all (\<lambda>e. calls_to Service_enable [e] = []) es2"
    by auto
  from passes_store [OF uninstall_tail_no_enable, of E w1] tail
  have st: "statestore w' ''enabled'' = statestore w1 ''enabled''" by simp
  from es2(2) have "calls_to Service_enable es2 = []" by (rule calls_to_none)
  with es1 es2(1) st show ?thesis
    by (intro exI [of _ "es1 @ es2"]) (simp add: calls_to_append)
qed

text \<open>
  Claim C6. The install step \<^verbatim>\<open>__enable\<close> asks whether the service is enabled, backs the
  answer up under \<^verbatim>\<open>enabled\<close> and only then disables the service; the store then holds the
  answer (or what an earlier backup of the key recorded). Whenever \<^verbatim>\<open>uninstall\<close> returns
  normally it has taken the record out of the store and has called \<^verbatim>\<open>enable()\<close> once when
  the recorded value was true and not at all otherwise. So an uninstall that starts from the
  record the install step wrote into a store without the key re-enables the service exactly
  when the service was enabled at install time.
\<close>

theorem enabled_flag_round_trip:
  "(\<forall>v. respond E (trace w) Service_is_enabled [] = Inr v \<longrightarrow>
      (\<exists>r w1. DsInstance__enable E w = (r, w1) \<and>
         trace w1 = trace w @ [Call Service_is_enabled [],
            Call Service_backup_state [PStr ''enabled'', v], Call Service_disable []] \<and>
         statestore w1 ''enabled'' =
            Some (case statestore w ''enabled'' of None \<Rightarrow> v | Some old \<Rightarrow> old))) \<and>
   (\<forall>u w'. uninstall E w = (Inr u, w') \<longrightarrow>
      (\<exists>es. trace w' = trace w @ es \<and> statestore w' ''enabled'' = None \<and>
         calls_to Service_enable es =
           (if truthy (case statestore w ''enabled'' of None \<Rightarrow> PNone | Some v \<Rightarrow> v)
            then [[]] else []))) \<and>
   (\<forall>v E2 w2 u w3. respond E (trace w) Service_is_enabled [] = Inr v \<and>
        statestore w ''enabled'' = None \<and>
        statestore w2 ''enabled'' = statestore (snd (DsInstance__enable E w)) ''enabled'' \<and>
        uninstall E2 w2 = (Inr u, w3) \<longrightarrow>
      (\<exists>es. trace w3 = trace w2 @ es \<and>
         calls_to Service_enable es = (if truthy v then [[]] else [])))"
proof (intro conjI allI impI)
  fix v assume "respond E (trace w) Service_is_enabled [] = Inr v"
  then show "\<exists>r w1. DsInstance__enable E w = (r, w1) \<and>
         trace w1 = trace w @ [Call Service_is_enabled [],
            Call Service_backup_state [PStr ''enabled'', v], Call Service_disable []] \<and>
         statestore w1 ''enabled'' =
            Some (case statestore w ''enabled'' of None \<Rightarrow> v | Some old \<Rightarrow> old)"
    by (rule enable_backs_up_then_disables)
next
  fix u w' assume "uninstall E w = (Inr u, w')"
  then show "\<exists>es. trace w' = trace w @ es \<and> statestore w' ''enabled'' = None \<and>
         calls_to Service_enable es =
           (if truthy (case statestore w ''enabled'' of None \<Rightarrow> PNone | Some v \<Rightarrow> v)
            then [[]] else [])"
    by (rule uninstall_enables_iff_backed_up)
next
  fix v E2 w2 u w3
  assume a: "respond E (trace w) Service_is_enabled [] = Inr v \<and>
        statestore w ''enabled'' = None \<and>
        statestore w2 ''enabled'' = statestore (snd (DsInstance__enable E w)) ''enabled'' \<and>
        uninstall E2 w2 = (Inr u, w3)"
  then have v: "respond E (trace w) Service_is_enabled [] = Inr v"
    and none: "statestore w ''enabled'' = None"
    and eq: "statestore w2 ''enabled'' = statestore (snd (DsInstance__enable E w)) ''enabled''"
    and run: "uninstall E2 w2 = (Inr u, w3)"
    by blast+
  from enable_backs_up_then_disables [OF v] none
  have "statestore (snd (DsInstance__enable E w)) ''enabled'' = Some v" by auto
  with eq have s: "statestore w2 ''enabled'' = Some v" by simp
  from uninstall_enables_iff_backed_up [OF run] s
  show "\<exists>es. trace w3 = trace w2 @ es \<and>
         calls_to Service_enable es = (if truthy v then [[]] else [])"
    by auto
qed

theorem enabled_flag_round_trip_witness:
  "\<exists>w3 es. uninstall (demo_env all_fine no_listing no_entry)
        (snd (DsInstance__enable (demo_env was_enabled no_listing no_entry) demo_world)) = (Inr (), w3) \<and>
     trace w3 = trace (snd (DsInstance__enable (demo_env was_enabled no_listing no_entry) demo_world)) @ es \<and>
     calls_to Service_enable es = [[]]"
proof -
  let ?E = "demo_env was_enabled no_listing no_entry"
  let ?E2 = "demo_env all_fine no_listing no_entry"
  let ?w2 = "snd (DsInstance__enable ?E demo_world)"
  have 1: "respond ?E (trace demo_world) Service_is_enabled [] = Inr (PBool True)"
    by (simp add: demo_env_def was_enabled_def)
  have 2: "statestore demo_world ''enabled'' = None"
    by (simp add: demo_world_def)
  have "\<exists>w3. uninstall ?E2 ?w2 = (Inr (), w3)"
    by (simp add: uninstall_def uninstall_restore_service_def uninstall_remove_instance_def
        uninstall_drop_state_def uninstall_restart_remaining_def get_ds_instances_def
        os_listdir_call_def restore_state_def backup_state_def DsInstance__enable_def run_defs
        demo_env_def demo_world_def was_enabled_def all_fine_def no_listing_def Let_def
        is_ValueError_def)
  then obtain w3 where 3: "uninstall ?E2 ?w2 = (Inr (), w3)" by blast
  from enabled_flag_round_trip [of ?E demo_world] 1 2 3
  have "\<exists>es. trace w3 = trace ?w2 @ es \<and>
      calls_to Service_enable es = (if truthy (PBool True) then [[]] else [])"
    by blast
  with 3 show ?thesis by auto
qed

section \<open>Uninstalling\<close>

lemma remove_ds_instance_raises_what_run_raises:
  assumes cpe: "\<And>h args e. respond E h ipautil_run args = Inl e \<Longrightarrow> is_CalledProcessError e"
    and "remove_ds_instance E (PStr s) force w = (Inl e, w')"
  shows "is_CalledProcessError e"
proof (cases force)
  case True
  with assms(2) show ?thesis
    by (auto simp add: remove_ds_instance_forced Let_def simp del: remove_ds_instance.simps
        split: sum.splits dest: cpe)
next
  case False
  with assms(2) show ?thesis
    by (auto simp add: remove_ds_instance_unforced remove_ds_instance_forced Let_def
        simp del: remove_ds_instance.simps split: sum.splits if_splits dest: cpe)
qed

lemma try_remove_logs_failure:
  assumes cpe: "\<And>h args e. respond E h ipautil_run args = Inl e \<Longrightarrow> is_CalledProcessError e"
    and fail: "remove_ds_instance E (PStr s) False wx = (Inl e, wy)"
  shows "uninstall_try_remove E (PStr s) wx =
     (Inr (), wy\<lparr>trace := trace wy @
        [Log ERROR ''Failed to remove DS instance. You may need to remove instance data manually'']\<rparr>)"
  using fail remove_ds_instance_raises_what_run_raises [OF cpe fail]
  by (simp add: uninstall_try_remove_def run_defs del: remove_ds_instance.simps)

lemma try_remove_returns:
  assumes ans: "\<And>h f args. f \<noteq> ipautil_run \<Longrightarrow> f \<noteq> dirsrv_restart \<Longrightarrow>
        respond E h f args = Inr (ans h f args)"
    and cpe: "\<And>h args e. respond E h ipautil_run args = Inl e \<Longrightarrow> is_CalledProcessError e"
  shows "\<exists>wy. uninstall_try_remove E (PStr s) wx = (Inr (), wy)"
proof (cases "remove_ds_instance E (PStr s) False wx")
  case (Pair r w1)
  show ?thesis
  proof (cases r)
    case (Inl e)
    with Pair have "remove_ds_instance E (PStr s) False wx = (Inl e, w1)" by simp
    from try_remove_logs_failure [OF cpe this] show ?thesis by simp
  next
    case (Inr u)
    with Pair show ?thesis
      by (simp add: uninstall_try_remove_def run_defs ans del: remove_ds_instance.simps)
  qed
qed

lemma restore_service_returns:
  assumes ans: "\<And>h f args. f \<noteq> ipautil_run \<Longrightarrow> f \<noteq> dirsrv_restart \<Longrightarrow>
        respond E h f args = Inr (ans h f args)"
  shows "\<exists>w1. uninstall_restore_service E w = (Inr (), w1) \<and>
     statestore w1 = (statestore w)(''enabled'' := None, ''running'' := None)"
  by (simp add: uninstall_restore_service_def restore_state_def run_defs ans)

lemma remove_instance_returns:
  assumes ans: "\<And>h f args. f \<noteq> ipautil_run \<Longrightarrow> f \<noteq> dirsrv_restart \<Longrightarrow>
        respond E h f args = Inr (ans h f args)"
    and cpe: "\<And>h args e. respond E h ipautil_run args = Inl e \<Longrightarrow> is_CalledProcessError e"
    and sid: "statestore w ''serverid'' = None \<or> (\<exists>s. statestore w ''serverid'' = Some (PStr s))"
  shows "\<exists>w2. uninstall_remove_instance E w = (Inr (), w2)"
proof -
  from sid show ?thesis
  proof
    assume "statestore w ''serverid'' = None"
    then show ?thesis
      by (simp add: uninstall_remove_instance_def restore_state_def run_defs)
  next
    assume "\<exists>s. statestore w ''serverid'' = Some (PStr s)"
    then obtain s where s: "statestore w ''serverid'' = Some (PStr s)" by blast
    let ?w1 = "w\<lparr>trace := trace w @ [Call Service_restore_state [PStr ''serverid'']],
        statestore := (statestore w)(''serverid'' := None)\<rparr>"
    obtain wx where wx: "thenE (stop_tracking_certificates E (PStr s))
        (log DEBUG ''Removing DS instance %s'') ?w1 = (Inr (), wx)"
      by (simp add: stop_tracking_certificates_def run_defs ans Let_def)
    have "\<exists>wy. uninstall_try_remove E (PStr s) wx = (Inr (), wy)"
      by (rule try_remove_returns [where ans = ans]) (simp add: ans, erule cpe)
    then obtain wy where
      wy: "uninstall_try_remove E (PStr s) wx = (Inr (), wy)" by blast
    from s wx wy show ?thesis
      by (auto simp add: uninstall_remove_instance_def restore_state_def thenE_def bindE_def
          split: sum.splits prod.splits)
  qed
qed

lemma drop_state_returns:
  "uninstall_drop_state w =
     (Inr (), w\<lparr>trace := trace w @
        [Call Service_restore_state [PStr ''user_exists''],
         Call Service_restore_state [PStr ''nsslapd-port''],
         Call Service_restore_state [PStr ''nsslapd-security''],
         Call Service_restore_state [PStr ''nsslapd-ldapiautobind'']],
        statestore := (statestore w)(''user_exists'' := None, ''nsslapd-port'' := None,
          ''nsslapd-security'' := None, ''nsslapd-ldapiautobind'' := None)\<rparr>)"
  by (simp add: uninstall_drop_state_def restore_state_def run_defs)

lemma ds_instances_loop_returns:
  assumes ans: "\<And>h f args. f \<noteq> ipautil_run \<Longrightarrow> f \<noteq> dirsrv_restart \<Longrightarrow>
        respond E h f args = Inr (ans h f args)"
  shows "\<exists>res w'. ds_instances_loop E dir names acc w = (Inr res, w')"
  by (induction names arbitrary: acc w) (simp_all add: run_defs ans Let_def)

lemma get_ds_instances_returns:
  assumes ans: "\<And>h f args. f \<noteq> ipautil_run \<Longrightarrow> f \<noteq> dirsrv_restart \<Longrightarrow>
        respond E h f args = Inr (ans h f args)"
    and listing: "\<And>h p. \<exists>ns. listdir E h p = Inr ns"
  shows "\<exists>instances wl. get_ds_instances E w = (Inr instances, wl)"
proof -
  from listing obtain ns where ns: "listdir E (trace w) (ETC_DIRSRV E) = Inr ns" by blast
  let ?w1 = "w\<lparr>trace := trace w @ [Call os_listdir [PStr (ETC_DIRSRV E)]]\<rparr>"
  have "\<exists>res w'. ds_instances_loop E (ETC_DIRSRV E) ns [] ?w1 = (Inr res, w')"
    by (rule ds_instances_loop_returns [where ans = ans]) (simp add: ans)
  then obtain res w' where "ds_instances_loop E (ETC_DIRSRV E) ns [] ?w1 = (Inr res, w')" by blast
  with ns show ?thesis
    by (simp add: get_ds_instances_def os_listdir_call_def bindE_def ret_def Let_def)
qed

lemma restart_loop_attempts_all:
  assumes exc: "\<And>h args e. respond E h dirsrv_restart args = Inl e \<Longrightarrow> is_Exception E e"
  shows "\<exists>w' es. forE instances (restart_remaining_instance E) w = (Inr (), w') \<and>
     trace w' = trace w @ es \<and>
     calls_to dirsrv_restart es = map (\<lambda>i. [PStr i, PBool False]) instances"
proof (induction instances arbitrary: w)
  case Nil
  show ?case by (simp add: ret_def)
next
  case (Cons i rest)
  have "\<exists>w1 es1. restart_remaining_instance E i w = (Inr (), w1) \<and> trace w1 = trace w @ es1 \<and>
      calls_to dirsrv_restart es1 = [[PStr i, PBool False]]"
  proof (cases "respond E (trace w) dirsrv_restart [PStr i, PBool False]")
    case (Inr v)
    then show ?thesis by (simp add: restart_remaining_instance_def run_defs)
  next
    case (Inl e)
    with exc [OF Inl] show ?thesis by (simp add: restart_remaining_instance_def run_defs)
  qed
  then obtain w1 es1 where 1: "restart_remaining_instance E i w = (Inr (), w1)"
    "trace w1 = trace w @ es1" "calls_to dirsrv_restart es1 = [[PStr i, PBool False]]" by blast
  from Cons.IH [of w1] obtain w' es where 2: "forE rest (restart_remaining_instance E) w1 = (Inr (), w')"
    "trace w' = trace w1 @ es" "calls_to dirsrv_restart es = map (\<lambda>i. [PStr i, PBool False]) rest"
    by blast
  from 1 2 show ?case
    by (intro exI [of _ w'] exI [of _ "es1 @ es"]) (simp add: thenE_def bindE_def calls_to_append)
qed

text \<open>
  Claim C5, as amended. Suppose every collaborator other than the process runner and the
  restart of a remaining instance answers, the process runner fails only with process errors,
  a restart fails only with an \<^verbatim>\<open>Exception\<close>, and the recorded \<^verbatim>\<open>serverid\<close> is absent or a
  string. Then the parts of \<^verbatim>\<open>uninstall\<close> run to their end one after the other, whatever
  the runner and the restarts do: the service settings are restored, the instance part
  returns, the four remaining keys are restored, the instances are listed, a restart is
  attempted for every listed instance in order, and \<^verbatim>\<open>uninstall\<close> returns normally. And
  whenever the removal of the instance raises (after its forced attempt, or at once), the
  \<^verbatim>\<open>try\<close> statement around it returns normally and has only added the error log line.
\<close>

theorem uninstall_best_effort:
  assumes others: "\<forall>h f args. f \<noteq> ipautil_run \<and> f \<noteq> dirsrv_restart \<longrightarrow>
        (\<exists>v. respond E h f args = Inr v)"
    and listing: "\<forall>h p. \<exists>ns. listdir E h p = Inr ns"
    and run_errors: "\<forall>h args e. respond E h ipautil_run args = Inl e \<longrightarrow> is_CalledProcessError e"
    and restart_errors: "\<forall>h args e. respond E h dirsrv_restart args = Inl e \<longrightarrow> is_Exception E e"
    and sid: "statestore w ''serverid'' = None \<or> (\<exists>s. statestore w ''serverid'' = Some (PStr s))"
  shows
  "(\<exists>w1 w2 w3 instances wl w4 es.
      uninstall_restore_service E w = (Inr (), w1) \<and>
      uninstall_remove_instance E w1 = (Inr (), w2) \<and>
      uninstall_drop_state w2 = (Inr (), w3) \<and>
      trace w3 = trace w2 @
        [Call Service_restore_state [PStr ''user_exists''],
         Call Service_restore_state [PStr ''nsslapd-port''],
         Call Service_restore_state [PStr ''nsslapd-security''],
         Call Service_restore_state [PStr ''nsslapd-ldapiautobind'']] \<and>
      get_ds_instances E w3 = (Inr instances, wl) \<and>
      forE instances (restart_remaining_instance E) wl = (Inr (), w4) \<and>
      trace w4 = trace wl @ es \<and>
      calls_to dirsrv_restart es = map (\<lambda>i. [PStr i, PBool False]) instances \<and>
      uninstall E w = (Inr (), w4)) \<and>
   (\<forall>s wx e wy. remove_ds_instance E (PStr s) False wx = (Inl e, wy) \<longrightarrow>
      uninstall_try_remove E (PStr s) wx =
        (Inr (), wy\<lparr>trace := trace wy @
           [Log ERROR ''Failed to remove DS instance. You may need to remove instance data manually'']\<rparr>))"
proof -
  from run_errors
  have run_cpe: "\<And>h args e. respond E h ipautil_run args = Inl e \<Longrightarrow> is_CalledProcessError e"
    by blast
  from restart_errors
  have restart_exc: "\<And>h args e. respond E h dirsrv_restart args = Inl e \<Longrightarrow> is_Exception E e"
    by blast
  from others have "\<forall>h f args. \<exists>v. f \<noteq> ipautil_run \<longrightarrow> f \<noteq> dirsrv_restart \<longrightarrow>
      respond E h f args = Inr v"
    by blast
  then obtain ans where ans: "\<And>h f args. f \<noteq> ipautil_run \<Longrightarrow> f \<noteq> dirsrv_restart \<Longrightarrow>
      respond E h f args = Inr (ans h f args)"
    by metis
  have "\<exists>w1. uninstall_restore_service E w = (Inr (), w1) \<and>
      statestore w1 = (statestore w)(''enabled'' := None, ''running'' := None)"
    by (rule restore_service_returns [where ans = ans]) (simp add: ans)
  then obtain w1 where w1: "uninstall_restore_service E w = (Inr (), w1)"
    and st1: "statestore w1 = (statestore w)(''enabled'' := None, ''running'' := None)"
    by blast
  from sid st1
  have sid1: "statestore w1 ''serverid'' = None \<or> (\<exists>s. statestore w1 ''serverid'' = Some (PStr s))"
    by simp
  have "\<exists>w2. uninstall_remove_instance E w1 = (Inr (), w2)"
    by (rule remove_instance_returns [where ans = ans]) (simp add: ans, erule run_cpe, rule sid1)
  then obtain w2 where w2: "uninstall_remove_instance E w1 = (Inr (), w2)" by blast
  obtain w3 where w3: "uninstall_drop_state w2 = (Inr (), w3)"
    and t3: "trace w3 = trace w2 @
        [Call Service_restore_state [PStr ''user_exists''],
         Call Service_restore_state [PStr ''nsslapd-port''],
         Call Service_restore_state [PStr ''nsslapd-security''],
         Call Service_restore_state [PStr ''nsslapd-ldapiautobind'']]"
    by (simp add: drop_state_returns)
  have "\<exists>instances wl. get_ds_instances E w3 = (Inr instances, wl)"
    by (rule get_ds_instances_returns [where ans = ans]) (simp add: ans, simp add: listing)
  then obtain instances wl where wl: "get_ds_instances E w3 = (Inr instances, wl)" by blast
  have "\<exists>w' es. forE instances (restart_remaining_instance E) wl = (Inr (), w') \<and>
     trace w' = trace wl @ es \<and>
     calls_to dirsrv_restart es = map (\<lambda>i. [PStr i, PBool False]) instances"
    by (rule restart_loop_attempts_all) (erule restart_exc)
  then obtain w4 es where w4: "forE instances (restart_remaining_instance E) wl = (Inr (), w4)"
    and t4: "trace w4 = trace wl @ es"
      "calls_to dirsrv_restart es = map (\<lambda>i. [PStr i, PBool False]) instances"
    by blast
  from w1 w2 w3 wl w4 have all: "uninstall E w = (Inr (), w4)"
    by (simp add: uninstall_def uninstall_restart_remaining_def thenE_def bindE_def)
  have logged: "\<forall>s wx e wy. remove_ds_instance E (PStr s) False wx = (Inl e, wy) \<longrightarrow>
      uninstall_try_remove E (PStr s) wx =
        (Inr (), wy\<lparr>trace := trace wy @
           [Log ERROR ''Failed to remove DS instance. You may need to remove instance data manually'']\<rparr>)"
  proof (intro allI impI)
    fix s wx e wy
    assume f: "remove_ds_instance E (PStr s) False wx = (Inl e, wy)"
    show "uninstall_try_remove E (PStr s) wx =
        (Inr (), wy\<lparr>trace := trace wy @
           [Log ERROR ''Failed to remove DS instance. You may need to remove instance data manually'']\<rparr>)"
      by (rule try_remove_logs_failure [OF _ f]) (erule run_cpe)
  qed
  from w1 w2 w3 t3 wl w4 t4 all logged show ?thesis by blast
qed

theorem uninstall_best_effort_witness:
  "(\<exists>w4. uninstall (demo_env removal_and_restarts_fail two_others no_entry) installed_world
       = (Inr (), w4)) \<and>
   calls_to ipautil_run
     (trace (snd (uninstall (demo_env removal_and_restarts_fail two_others no_entry) installed_world))) =
     [[PList [PStr ''/usr/sbin/remove-ds.pl'', PStr ''-i'', PStr ''slapd-EXAMPLE-COM'']],
      [PList [PStr ''/usr/sbin/remove-ds.pl'', PStr ''-i'', PStr ''slapd-EXAMPLE-COM'', PStr ''-f'']]] \<and>
   calls_to dirsrv_restart
     (trace (snd (uninstall (demo_env removal_and_restarts_fail two_others no_entry) installed_world))) =
     [[PStr ''OTHER'', PBool False], [PStr ''THIRD'', PBool False]]"
proof -
  let ?E = "demo_env removal_and_restarts_fail two_others no_entry"
  have 1: "\<forall>h f args. f \<noteq> ipautil_run \<and> f \<noteq> dirsrv_restart \<longrightarrow>
      (\<exists>v. respond ?E h f args = Inr v)"
    by (simp add: demo_env_def removal_and_restarts_fail_def)
  have 2: "\<forall>h p. \<exists>ns. listdir ?E h p = Inr ns"
    by (simp add: demo_env_def two_others_def)
  have 3: "\<forall>h args e. respond ?E h ipautil_run args = Inl e \<longrightarrow> is_CalledProcessError e"
    by (simp add: demo_env_def removal_and_restarts_fail_def is_CalledProcessError_def)
  have 4: "\<forall>h args e. respond ?E h dirsrv_restart args = Inl e \<longrightarrow> is_Exception ?E e"
    by (auto simp add: demo_env_def removal_and_restarts_fail_def is_Exception_def)
  have 5: "statestore installed_world ''serverid'' = None \<or>
      (\<exists>s. statestore installed_world ''serverid'' = Some (PStr s))"
    by (simp add: installed_world_def)
  from uninstall_best_effort [of ?E installed_world, OF 1 2 3 4 5]
  have a: "\<exists>w4. uninstall ?E installed_world = (Inr (), w4)"
    by (elim conjE exE) (rule exI)
  have b: "calls_to ipautil_run (trace (snd (uninstall ?E installed_world))) =
     [[PList [PStr ''/usr/sbin/remove-ds.pl'', PStr ''-i'', PStr ''slapd-EXAMPLE-COM'']],
      [PList [PStr ''/usr/sbin/remove-ds.pl'', PStr ''-i'', PStr ''slapd-EXAMPLE-COM'', PStr ''-f'']]] \<and>
    calls_to dirsrv_restart (trace (snd (uninstall ?E installed_world))) =
     [[PStr ''OTHER'', PBool False], [PStr ''THIRD'', PBool False]]"
    by (simp add: uninstall_def uninstall_restore_service_def uninstall_remove_instance_def
        uninstall_try_remove_def stop_tracking_certificates_def uninstall_drop_state_def
        uninstall_restart_remaining_def restart_remaining_instance_def get_ds_instances_def
        os_listdir_call_def restore_state_def get_state_def run_defs remove_ds_args_def
        config_dirname_def os_path_join_def startswith_def endswith_def DS_INSTANCE_PREFIX_def
        demo_env_def demo_world_def installed_world_def removal_and_restarts_fail_def
        two_others_def Let_def is_ValueError_def is_CalledProcessError_def is_Exception_def)
  from a b show ?thesis by blast
qed

text \<open>
  The claim as stated fails twice. When the removal of the instance fails (also forced), the
  removal of the keytab and of the credential cache is never attempted, though
  \<^verbatim>\<open>uninstall\<close> returns normally. And when \<^verbatim>\<open>self.enable()\<close> raises a process error,
  \<^verbatim>\<open>uninstall\<close> raises it: the \<^verbatim>\<open>serverid\<close> is never restored and the removal tool never
  runs.
\<close>

theorem uninstall_skips_and_aborts:
  "fst (uninstall (demo_env removal_fails no_listing no_entry) installed_world) = Inr () \<and>
   calls_to installutils_remove_keytab
     (trace (snd (uninstall (demo_env removal_fails no_listing no_entry) installed_world))) = [] \<and>
   calls_to installutils_remove_ccache
     (trace (snd (uninstall (demo_env removal_fails no_listing no_entry) installed_world))) = [] \<and>
   fst (uninstall (demo_env enable_fails no_listing no_entry) installed_world) =
     Inl CalledProcessError \<and>
   calls_to Service_restore_state
     (trace (snd (uninstall (demo_env enable_fails no_listing no_entry) installed_world))) =
     [[PStr ''enabled''], [PStr ''running'']] \<and>
   calls_to ipautil_run
     (trace (snd (uninstall (demo_env enable_fails no_listing no_entry) installed_world))) = []"
  by (simp add: uninstall_def uninstall_restore_service_def uninstall_remove_instance_def
      uninstall_try_remove_def stop_tracking_certificates_def uninstall_drop_state_def
      uninstall_restart_remaining_def restart_remaining_instance_def get_ds_instances_def
      os_listdir_call_def restore_state_def get_state_def run_defs remove_ds_args_def
      config_dirname_def DS_INSTANCE_PREFIX_def
      demo_env_def demo_world_def installed_world_def removal_fails_def enable_fails_def
      no_listing_def Let_def is_ValueError_def is_CalledProcessError_def is_Exception_def)

end
